theory Spec2Isabelle
  imports Main "HOL-Library.Sublist"
begin

section \<open>The deployment orchestrator \<open>create.py\<close>\<close>

text \<open>
  \<open>create.py\<close> sequences external commands (rendering, pip, terraform, git and
  ansible-playbook) for a named deployment. The embedding below follows the script
  section by section. Everything outside the script is an explicit parameter:
  the file system, the environment, the operator's console and the command runner
  \<open>io.run\<close> are fields of a \<open>sys\<close> record, and the outside world they act on is a
  value of an arbitrary type \<open>'w\<close> that is threaded through the run.
\<close>

subsection \<open>Python values and errors\<close>

text \<open>The exceptions the script can raise; none of them is caught anywhere.\<close>

datatype py_error =
    KeyError string
  | TypeError
  | EOFError
  | IOError
  | YAMLError

text \<open>
  What \<open>yaml.load\<close> returns: scalars, lists and dicts. A dict is kept as the list of
  its items in document order (the keys of a dict are distinct).
\<close>

datatype yaml =
    YNull
  | YBool bool
  | YInt int
  | YStr string
  | YList "yaml list"
  | YMap "(string \<times> yaml) list"

text \<open>\<open>d[k]\<close> with a string key: \<open>KeyError\<close> on a dict without the key, \<open>TypeError\<close>
  on anything that is not a dict.\<close>

fun getitem :: "yaml \<Rightarrow> string \<Rightarrow> py_error + yaml" where
  "getitem (YMap kvs) k = (case map_of kvs k of None \<Rightarrow> Inl (KeyError k) | Some v \<Rightarrow> Inr v)"
| "getitem _ k = Inl TypeError"

text \<open>\<open>d[a][b]\<close> and \<open>d[a][b][c]\<close>, evaluated left to right.\<close>

definition getitem2 :: "yaml \<Rightarrow> string \<Rightarrow> string \<Rightarrow> py_error + yaml" where
  "getitem2 d a b = (case getitem d a of Inl e \<Rightarrow> Inl e | Inr x \<Rightarrow> getitem x b)"

definition getitem3 :: "yaml \<Rightarrow> string \<Rightarrow> string \<Rightarrow> string \<Rightarrow> py_error + yaml" where
  "getitem3 d a b c = (case getitem2 d a b of Inl e \<Rightarrow> Inl e | Inr x \<Rightarrow> getitem x c)"

text \<open>The truth value of a YAML value in an \<open>if\<close>.\<close>

fun truthy :: "yaml \<Rightarrow> bool" where
  "truthy YNull = False"
| "truthy (YBool b) = b"
| "truthy (YInt n) = (n \<noteq> 0)"
| "truthy (YStr s) = (s \<noteq> [])"
| "truthy (YList xs) = (xs \<noteq> [])"
| "truthy (YMap kvs) = (kvs \<noteq> [])"

text \<open>The items a \<open>for\<close> loop visits: the elements of a list, the characters of a
  string, the keys of a dict; anything else is not iterable.\<close>

fun py_iter :: "yaml \<Rightarrow> py_error + yaml list" where
  "py_iter (YList xs) = Inr xs"
| "py_iter (YStr s) = Inr (map (\<lambda>c. YStr [c]) s)"
| "py_iter (YMap kvs) = Inr (map (\<lambda>kv. YStr (fst kv)) kvs)"
| "py_iter _ = Inl TypeError"

subsection \<open>The outside world\<close>

text \<open>
  One entry of the run's log: an external command handed to \<open>io.run\<close> (command line,
  working directory and the success flag it came back with), and the messages the
  script writes for the operator.
\<close>

datatype event =
    Run string string bool
  | Error string
  | Print string
  | Banner yaml
  | Prompt string

text \<open>
  The collaborators of the script. The module \<open>utils.io\<close> is not among the sources, so
  its functions are parameters here, as are the operating system and the console.
  \<open>io_run cmd cwd quiet\<close> is the command runner \<open>io.run\<close>: it may change the world and
  reports success or failure (the output it also returns is never looked at).
  \<open>io.error\<close> and \<open>io.banner\<close> only write to the operator and are logged as events.
  \<open>py_repr\<close> is the text \<open>'{}'.format\<close> gives for a YAML value that is not a string.
\<close>

record 'w sys =
  os_path_exists :: "'w \<Rightarrow> string \<Rightarrow> bool"
  os_path_isdir :: "'w \<Rightarrow> string \<Rightarrow> bool"
  os_environ :: "string \<Rightarrow> string option"
  yaml_load :: "'w \<Rightarrow> string \<Rightarrow> py_error + yaml"
  glob_glob :: "'w \<Rightarrow> string \<Rightarrow> string list"
  io_run :: "string \<Rightarrow> string \<Rightarrow> bool \<Rightarrow> 'w \<Rightarrow> bool \<times> 'w"
  io_get_confirmation_word :: "'w \<Rightarrow> string"
  input :: "string \<Rightarrow> 'w \<Rightarrow> string option"
  py_repr :: "yaml \<Rightarrow> string"

text \<open>The parsed command line (\<open>ARGS\<close>); \<open>DEPLOYMENT\<close> is the optional positional.\<close>

record cli_args =
  quiet :: bool
  cluster :: bool
  okd :: bool
  display_deployments :: bool
  skip_rendering :: bool
  skip_terraform :: bool
  skip_pre_openshift :: bool
  skip_openshift :: bool
  skip_post_openshift :: bool
  auto_acknowledge :: bool
  DEPLOYMENT :: "string option"

subsection \<open>Statements with early return\<close>

text \<open>
  A block of the function either falls through to the next statement with a value,
  executes \<open>return b\<close>, or raises. It also yields the events it logged, in order, and
  the world it leaves behind.
\<close>

datatype 'a outcome = Next 'a | Return bool | Raise py_error

type_synonym ('w, 'a) prog = "'w \<Rightarrow> 'a outcome \<times> event list \<times> 'w"

definition ok :: "'a \<Rightarrow> ('w, 'a) prog" where
  "ok x = (\<lambda>w. (Next x, [], w))"

definition ret :: "bool \<Rightarrow> ('w, 'a) prog" where
  "ret b = (\<lambda>w. (Return b, [], w))"

definition raise :: "py_error \<Rightarrow> ('w, 'a) prog" where
  "raise e = (\<lambda>w. (Raise e, [], w))"

definition lift :: "py_error + 'a \<Rightarrow> ('w, 'a) prog" where
  "lift r = (case r of Inl e \<Rightarrow> raise e | Inr x \<Rightarrow> ok x)"

definition emit :: "event \<Rightarrow> ('w, unit) prog" where
  "emit e = (\<lambda>w. (Next (), [e], w))"

definition ask :: "('w \<Rightarrow> 'a) \<Rightarrow> ('w, 'a) prog" where
  "ask f = (\<lambda>w. (Next (f w), [], w))"

definition bind :: "('w, 'a) prog \<Rightarrow> ('a \<Rightarrow> ('w, 'b) prog) \<Rightarrow> ('w, 'b) prog" where
  "bind m f = (\<lambda>w. case m w of
       (Next x, es, w') \<Rightarrow> (case f x w' of (r, es', w'') \<Rightarrow> (r, es @ es', w''))
     | (Return b, es, w') \<Rightarrow> (Return b, es, w')
     | (Raise e, es, w') \<Rightarrow> (Raise e, es, w'))"

text \<open>\<open>rv, _ = io.run(cmd, cwd, quiet)\<close>: the call is logged with its result.\<close>

definition run :: "'w sys \<Rightarrow> string \<Rightarrow> string \<Rightarrow> bool \<Rightarrow> ('w, bool) prog" where
  "run sys cmd cwd q = (\<lambda>w. case io_run sys cmd cwd q w of (rv, w') \<Rightarrow> (Next rv, [Run cmd cwd rv], w'))"

text \<open>The pattern that follows every call of \<open>io.run\<close>: \<open>if not rv: return False\<close>.\<close>

definition run_checked :: "'w sys \<Rightarrow> string \<Rightarrow> string \<Rightarrow> bool \<Rightarrow> ('w, unit) prog" where
  "run_checked sys cmd cwd q = bind (run sys cmd cwd q) (\<lambda>rv. if \<not> rv then ret False else ok ())"

text \<open>\<open>'{}'.format(v)\<close> for a value read from the configuration.\<close>

definition fmt :: "'w sys \<Rightarrow> yaml \<Rightarrow> string" where
  "fmt sys v = (case v of YStr s \<Rightarrow> s | _ \<Rightarrow> py_repr sys v)"

text \<open>\<open>os.environ[name]\<close>.\<close>

definition environ :: "'w sys \<Rightarrow> string \<Rightarrow> py_error + string" where
  "environ sys name = (case os_environ sys name of None \<Rightarrow> Inl (KeyError name) | Some v \<Rightarrow> Inr v)"

definition dq :: string where
  "dq = [CHR 0x22]"

subsection \<open>The function \<open>_main\<close>, section by section\<close>

text \<open>Lines 30 to 45: the configuration file is loaded and the inventory directory
  it names must exist. Yields \<open>deployment\<close> and \<open>inventory_dir\<close>.\<close>

definition load_deployment :: "'w sys \<Rightarrow> string \<Rightarrow> ('w, yaml \<times> yaml) prog" where
  "load_deployment sys deployment_name =
    (let deployment_file = ''deployments/'' @ deployment_name @ ''.yaml'' in
     bind (ask (\<lambda>w. os_path_exists sys w deployment_file)) (\<lambda>file_exists.
     if \<not> file_exists then
       bind (emit (Error (''No config file ('' @ deployment_file @ '') for an '' @ dq
                          @ deployment_name @ dq @ '' deployment''))) (\<lambda>_. ret False)
     else
       bind (\<lambda>w. lift (yaml_load sys w deployment_file) w) (\<lambda>deployment.
       bind (lift (getitem2 deployment ''openshift'' ''inventory_dir'')) (\<lambda>inventory_dir.
       bind (ask (\<lambda>w. os_path_isdir sys w (''openshift/inventories/'' @ fmt sys inventory_dir)))
         (\<lambda>is_dir.
       if \<not> is_dir then
         bind (emit (Error (''Missing '' @ dq @ ''openshift/inventories'' @ dq @ '' directory''))) (\<lambda>_.
         bind (emit (Print (''Expected to find the inventory directory '' @ dq @ fmt sys inventory_dir
                            @ dq @ '' but it was not there.''))) (\<lambda>_.
         bind (emit (Print (''Every deployment must have an '' @ dq @ ''inventories'' @ dq
                            @ '' directory''))) (\<lambda>_.
         ret False)))
       else ok (deployment, inventory_dir))))))"

text \<open>Lines 50 to 60: the banner and the confirmation question.\<close>

definition confirmation_prompt :: "cli_args \<Rightarrow> string \<Rightarrow> string" where
  "confirmation_prompt cli_args confirmation_word =
    (let target = (if cluster cli_args then ''CREATE the Cluster'' else ''INSTALL OpenShift'')
     in ''Enter '' @ dq @ confirmation_word @ dq @ '' to '' @ target @ '': '')"

definition hello :: "'w sys \<Rightarrow> cli_args \<Rightarrow> yaml \<Rightarrow> ('w, unit) prog" where
  "hello sys cli_args deployment =
    bind (lift (getitem deployment ''name'')) (\<lambda>name.
    bind (emit (Banner name)) (\<lambda>_.
    if \<not> auto_acknowledge cli_args then
      bind (ask (io_get_confirmation_word sys)) (\<lambda>confirmation_word.
      bind (emit (Prompt (confirmation_prompt cli_args confirmation_word))) (\<lambda>_.
      bind (\<lambda>w. lift (case input sys (confirmation_prompt cli_args confirmation_word) w of
                            None \<Rightarrow> Inl EOFError | Some s \<Rightarrow> Inr s) w) (\<lambda>confirmation.
      if confirmation \<noteq> confirmation_word then
        bind (emit (Print ''Phew! That was close!'')) (\<lambda>_. ret True)
      else ok ())))
    else ok ()))"

text \<open>Lines 68 to 74: rendering of the Jinja2 templates.\<close>

definition render :: "'w sys \<Rightarrow> cli_args \<Rightarrow> string \<Rightarrow> ('w, unit) prog" where
  "render sys cli_args deployment_name =
    (if \<not> skip_rendering cli_args then
       run_checked sys (''./render.py '' @ deployment_name) ''.'' (quiet cli_args)
     else ok ())"

text \<open>Lines 81 to 90: pip is upgraded, then the ansible version of the configuration
  is installed.\<close>

definition install_ansible :: "'w sys \<Rightarrow> cli_args \<Rightarrow> yaml \<Rightarrow> ('w, unit) prog" where
  "install_ansible sys cli_args deployment =
    bind (run_checked sys ''pip install --upgrade pip'' ''.'' (quiet cli_args)) (\<lambda>_.
    bind (lift (getitem2 deployment ''ansible'' ''version'')) (\<lambda>version.
    run_checked sys (''pip install ansible=='' @ fmt sys version) ''.'' (quiet cli_args)))"

text \<open>Lines 100 to 114: terraform init and apply.\<close>

definition state_file :: "string \<Rightarrow> string" where
  "state_file deployment_name = ''.terraform.'' @ deployment_name"

definition terraform_apply_cmd :: "string \<Rightarrow> string" where
  "terraform_apply_cmd deployment_name =
     ''terraform apply -auto-approve -state='' @ state_file deployment_name"

definition terraform_output_cmd :: "string \<Rightarrow> string" where
  "terraform_output_cmd deployment_name = ''terraform output -state='' @ state_file deployment_name"

definition terraform :: "'w sys \<Rightarrow> cli_args \<Rightarrow> string \<Rightarrow> yaml \<Rightarrow> ('w, unit) prog" where
  "terraform sys cli_args deployment_name t_dir =
    (if \<not> skip_terraform cli_args then
       bind (run_checked sys ''terraform init'' (''terraform/'' @ fmt sys t_dir) (quiet cli_args)) (\<lambda>_.
       run_checked sys (terraform_apply_cmd deployment_name) (''terraform/'' @ fmt sys t_dir)
         (quiet cli_args))
     else ok ())"

text \<open>Lines 121 to 139: the bastion site file (cluster mode's pre-OpenShift stage).\<close>

definition bastion :: "'w sys \<Rightarrow> cli_args \<Rightarrow> yaml \<Rightarrow> yaml \<Rightarrow> ('w, unit) prog" where
  "bastion sys cli_args deployment inventory_dir =
    (if \<not> skip_pre_openshift cli_args then
       bind (lift (getitem3 deployment ''cluster'' ''master'' ''generate_cert'')) (\<lambda>generate_cert.
       bind (if truthy generate_cert then
               bind (lift (environ sys ''TF_VAR_master_certbot_email'')) (\<lambda>email.
               bind (lift (getitem2 deployment ''cluster'' ''public_hostname'')) (\<lambda>public_hostname.
               ok ('' -e master_cert_email='' @ email
                   @ '' -e public_hostname='' @ fmt sys public_hostname)))
             else ok []) (\<lambda>extra_env.
       bind (lift (environ sys ''TF_VAR_keypair_name'')) (\<lambda>keypair_name.
       run_checked sys (''ansible-playbook site.yaml '' @ extra_env
                        @ '' -e keypair_name='' @ keypair_name
                        @ '' -e deployment='' @ fmt sys inventory_dir)
         ''ansible/bastion'' (quiet cli_args))))
     else ok ())"

text \<open>Lines 141 to 149: terraform output, under the same flag as init and apply.\<close>

definition terraform_output :: "'w sys \<Rightarrow> cli_args \<Rightarrow> string \<Rightarrow> yaml \<Rightarrow> ('w, unit) prog" where
  "terraform_output sys cli_args deployment_name t_dir =
    (if \<not> skip_terraform cli_args then
       run_checked sys (terraform_output_cmd deployment_name) (''terraform/'' @ fmt sys t_dir)
         (quiet cli_args)
     else ok ())"

text \<open>Lines 166 to 182: OpenShift Ansible is cloned unless its directory is there, and
  the tag of the configuration is checked out.\<close>

definition git_clone_cmd :: string where
  "git_clone_cmd = ''git clone https://github.com/openshift/openshift-ansible.git --no-checkout''"

definition clone :: "'w sys \<Rightarrow> cli_args \<Rightarrow> yaml \<Rightarrow> ('w, unit) prog" where
  "clone sys cli_args deployment =
    bind (ask (\<lambda>w. os_path_exists sys w ''openshift-ansible'')) (\<lambda>clone_exists.
    bind (if \<not> clone_exists then run_checked sys git_clone_cmd ''.'' (quiet cli_args) else ok ()) (\<lambda>_.
    bind (lift (getitem2 deployment ''openshift'' ''ansible_tag'')) (\<lambda>ansible_tag.
    run_checked sys (''git checkout tags/'' @ fmt sys ansible_tag) ''openshift-ansible''
      (quiet cli_args))))"

text \<open>Lines 188 to 201: install mode's pre-OpenShift stage.\<close>

definition pre_openshift :: "'w sys \<Rightarrow> cli_args \<Rightarrow> yaml \<Rightarrow> yaml \<Rightarrow> ('w, unit) prog" where
  "pre_openshift sys cli_args deployment inventory_dir =
    (if \<not> skip_pre_openshift cli_args then
       bind (lift (getitem3 deployment ''cluster'' ''master'' ''generate_cert'')) (\<lambda>generate_cert.
       bind (if truthy generate_cert then
               bind (lift (getitem2 deployment ''cluster'' ''public_hostname'')) (\<lambda>public_hostname.
               ok ('' -e public_hostname='' @ fmt sys public_hostname))
             else ok []) (\<lambda>extra_env.
       run_checked sys (''ansible-playbook site.yaml '' @ extra_env
                        @ '' -i ../../openshift/inventories/'' @ fmt sys inventory_dir @ ''/inventory'')
         ''ansible/pre-os'' (quiet cli_args)))
     else ok ())"

text \<open>Lines 209 to 217: one \<open>ansible-playbook\<close> call for each play of the configuration.\<close>

definition play_cmd :: "'w sys \<Rightarrow> yaml \<Rightarrow> yaml \<Rightarrow> string" where
  "play_cmd sys play inventory_dir =
     ''ansible-playbook ../openshift-ansible/playbooks/'' @ fmt sys play
     @ '' -i inventories/'' @ fmt sys inventory_dir @ ''/inventory''"

fun openshift_plays :: "'w sys \<Rightarrow> bool \<Rightarrow> yaml \<Rightarrow> yaml list \<Rightarrow> ('w, unit) prog" where
  "openshift_plays sys q inventory_dir [] = ok ()"
| "openshift_plays sys q inventory_dir (play # plays) =
     bind (run_checked sys (play_cmd sys play inventory_dir) ''openshift'' q) (\<lambda>_.
     openshift_plays sys q inventory_dir plays)"

definition openshift :: "'w sys \<Rightarrow> cli_args \<Rightarrow> yaml \<Rightarrow> yaml \<Rightarrow> ('w, unit) prog" where
  "openshift sys cli_args deployment inventory_dir =
    (if \<not> skip_openshift cli_args then
       bind (lift (getitem2 deployment ''openshift'' ''play'')) (\<lambda>play_list.
       bind (lift (py_iter play_list)) (\<lambda>plays.
       openshift_plays sys (quiet cli_args) inventory_dir plays))
     else ok ())"

text \<open>Lines 223 to 229: the post-OpenShift stage.\<close>

definition post_openshift :: "'w sys \<Rightarrow> cli_args \<Rightarrow> ('w, unit) prog" where
  "post_openshift sys cli_args =
    (if \<not> skip_post_openshift cli_args then
       run_checked sys ''ansible-playbook site.yaml'' ''ansible/post-os'' (quiet cli_args)
     else ok ())"

text \<open>
  The function as a whole. \<open>before_mode\<close> is lines 30 to 92, up to the branch on
  \<open>cli_args.cluster\<close>; \<open>cluster_mode\<close> is lines 93 to 152 and \<open>install_mode\<close> lines 154
  to 237.
\<close>

definition before_mode :: "'w sys \<Rightarrow> cli_args \<Rightarrow> string \<Rightarrow> ('w, yaml \<times> yaml \<times> yaml) prog" where
  "before_mode sys cli_args deployment_name =
    bind (load_deployment sys deployment_name) (\<lambda>(deployment, inventory_dir).
    bind (hello sys cli_args deployment) (\<lambda>_.
    bind (render sys cli_args deployment_name) (\<lambda>_.
    bind (install_ansible sys cli_args deployment) (\<lambda>_.
    bind (lift (getitem2 deployment ''terraform'' ''dir'')) (\<lambda>t_dir.
    ok (deployment, inventory_dir, t_dir))))))"

definition cluster_mode ::
  "'w sys \<Rightarrow> cli_args \<Rightarrow> string \<Rightarrow> yaml \<Rightarrow> yaml \<Rightarrow> yaml \<Rightarrow> ('w, unit) prog" where
  "cluster_mode sys cli_args deployment_name deployment inventory_dir t_dir =
    bind (terraform sys cli_args deployment_name t_dir) (\<lambda>_.
    bind (bastion sys cli_args deployment inventory_dir) (\<lambda>_.
    bind (terraform_output sys cli_args deployment_name t_dir) (\<lambda>_.
    ret True)))"

definition install_mode :: "'w sys \<Rightarrow> cli_args \<Rightarrow> yaml \<Rightarrow> yaml \<Rightarrow> ('w, unit) prog" where
  "install_mode sys cli_args deployment inventory_dir =
    bind (clone sys cli_args deployment) (\<lambda>_.
    bind (pre_openshift sys cli_args deployment inventory_dir) (\<lambda>_.
    bind (openshift sys cli_args deployment inventory_dir) (\<lambda>_.
    bind (post_openshift sys cli_args) (\<lambda>_.
    ret True))))"

definition main :: "'w sys \<Rightarrow> cli_args \<Rightarrow> string \<Rightarrow> ('w, unit) prog" where
  "main sys cli_args deployment_name =
    bind (before_mode sys cli_args deployment_name) (\<lambda>(deployment, inventory_dir, t_dir).
    if cluster cli_args then
      cluster_mode sys cli_args deployment_name deployment inventory_dir t_dir
    else
      install_mode sys cli_args deployment inventory_dir)"

subsection \<open>The script body\<close>

text \<open>How the process ends: \<open>sys.exit(n)\<close> (or the end of the script, status 0), or an
  exception nobody caught, which the interpreter reports with status 1.\<close>

datatype exit = Exit nat | Traceback py_error

fun exit_code :: "exit \<Rightarrow> nat" where
  "exit_code (Exit n) = n"
| "exit_code (Traceback e) = 1"

text \<open>\<open>os.path.basename(path)[:-5]\<close>: the file name without its \<open>.yaml\<close>.\<close>

definition basename :: "string \<Rightarrow> string" where
  "basename path = rev (takeWhile (\<lambda>c. c \<noteq> CHR ''/'') (rev path))"

definition stem :: "string \<Rightarrow> string" where
  "stem path = take (length (basename path) - 5) (basename path)"

text \<open>Lines 318 to 329: the deployment to use, or the messages of the refusal. The
  list of deployments is not empty here: \<open>first\<close> is \<open>deployments[0]\<close>.\<close>

definition select_deployment :: "cli_args \<Rightarrow> string \<Rightarrow> string list \<Rightarrow> event list + string" where
  "select_deployment ARGS first others =
    (case DEPLOYMENT ARGS of
       Some (c # cs) \<Rightarrow> Inr (c # cs)
     | _ \<Rightarrow>
       (if length (first # others) > 1 then
          Inl (Print (''ERROR: You need to supply the name of a deployment.'' @ [CHR 0x0A]
                      @ ''       The following are available:'')
               # map (\<lambda>d. Print (stem d)) (first # others))
        else Inr (stem first)))"

text \<open>Lines 296 to 346. A function that falls off its end returns \<open>None\<close>, which is
  false; \<open>_main\<close> never does.\<close>

definition script :: "'w sys \<Rightarrow> cli_args \<Rightarrow> 'w \<Rightarrow> exit \<times> event list \<times> 'w" where
  "script sys ARGS w =
    (if \<not> cluster ARGS \<and> \<not> okd ARGS then
       (Exit 1, [Print ''Must specify --cluster or --okd''], w)
     else
       (case glob_glob sys w ''deployments/*.yaml'' of
          [] \<Rightarrow> (Exit 1, [Print ''The deployments directory is empty''], w)
        | first # others \<Rightarrow>
            if display_deployments ARGS then
              (Exit 0, map (\<lambda>d. Print (stem d)) (first # others), w)
            else
              (case select_deployment ARGS first others of
                 Inl es \<Rightarrow> (Exit 1, es, w)
               | Inr deployment_file \<Rightarrow>
                   let config_file = ''deployments/'' @ deployment_file @ ''.yaml'' in
                   if \<not> os_path_exists sys w config_file then
                     (Exit 1, [Error (''No config file ('' @ config_file @ '') for an '' @ dq
                                      @ deployment_file @ dq @ '' deployment'')], w)
                   else
                     (case main sys ARGS deployment_file w of
                        (Raise e, es, w') \<Rightarrow> (Traceback e, es, w')
                      | (Return success, es, w') \<Rightarrow>
                          if \<not> success then (Exit 1, es @ [Error ''Failed to start cluster''], w')
                          else (Exit 0, es, w')
                      | (Next _, es, w') \<Rightarrow>
                          (Exit 1, es @ [Error ''Failed to start cluster''], w')))))"

subsection \<open>Reading a log\<close>

text \<open>The external commands of a log, in order, each with its working directory.\<close>

fun commands :: "event list \<Rightarrow> (string \<times> string) list" where
  "commands [] = []"
| "commands (Run cmd cwd rv # es) = (cmd, cwd) # commands es"
| "commands (_ # es) = commands es"

subsection \<open>The stage groups of a run\<close>

text \<open>
  What a run is expected to hand to \<open>io.run\<close>, stage group by stage group. A command
  line is built from fields of the configuration and from the environment; where a
  field or a variable is absent the stage raises before it builds the line, so here an
  absent value is read as \<open>None\<close> (the empty text for a variable) and the line is
  never compared with anything the run did.
\<close>

definition val :: "py_error + yaml \<Rightarrow> yaml" where
  "val r = (case r of Inl e \<Rightarrow> YNull | Inr v \<Rightarrow> v)"

definition present :: "py_error + 'a \<Rightarrow> bool" where
  "present r = (case r of Inl e \<Rightarrow> False | Inr v \<Rightarrow> True)"

definition env_val :: "'w sys \<Rightarrow> string \<Rightarrow> string" where
  "env_val sys name = (case os_environ sys name of None \<Rightarrow> [] | Some v \<Rightarrow> v)"

definition generate_cert :: "yaml \<Rightarrow> bool" where
  "generate_cert d = truthy (val (getitem3 d ''cluster'' ''master'' ''generate_cert''))"

definition public_hostname_arg :: "'w sys \<Rightarrow> yaml \<Rightarrow> string" where
  "public_hostname_arg sys d =
     '' -e public_hostname='' @ fmt sys (val (getitem2 d ''cluster'' ''public_hostname''))"

definition terraform_cwd :: "'w sys \<Rightarrow> yaml \<Rightarrow> string" where
  "terraform_cwd sys d = ''terraform/'' @ fmt sys (val (getitem2 d ''terraform'' ''dir''))"

definition render_commands :: "string \<Rightarrow> (string \<times> string) list" where
  "render_commands n = [(''./render.py '' @ n, ''.'')]"

definition ansible_commands :: "'w sys \<Rightarrow> yaml \<Rightarrow> (string \<times> string) list" where
  "ansible_commands sys d =
     [(''pip install --upgrade pip'', ''.''),
      (''pip install ansible=='' @ fmt sys (val (getitem2 d ''ansible'' ''version'')), ''.'')]"

definition terraform_commands :: "'w sys \<Rightarrow> string \<Rightarrow> yaml \<Rightarrow> (string \<times> string) list" where
  "terraform_commands sys n d =
     [(''terraform init'', terraform_cwd sys d), (terraform_apply_cmd n, terraform_cwd sys d)]"

definition bastion_commands :: "'w sys \<Rightarrow> yaml \<Rightarrow> (string \<times> string) list" where
  "bastion_commands sys d =
     [(''ansible-playbook site.yaml ''
       @ (if generate_cert d then
            '' -e master_cert_email='' @ env_val sys ''TF_VAR_master_certbot_email''
            @ public_hostname_arg sys d
          else [])
       @ '' -e keypair_name='' @ env_val sys ''TF_VAR_keypair_name''
       @ '' -e deployment='' @ fmt sys (val (getitem2 d ''openshift'' ''inventory_dir'')),
       ''ansible/bastion'')]"

definition terraform_output_commands :: "'w sys \<Rightarrow> string \<Rightarrow> yaml \<Rightarrow> (string \<times> string) list" where
  "terraform_output_commands sys n d = [(terraform_output_cmd n, terraform_cwd sys d)]"

definition clone_commands :: "'w sys \<Rightarrow> yaml \<Rightarrow> bool \<Rightarrow> (string \<times> string) list" where
  "clone_commands sys d clone_present =
     (if clone_present then [] else [(git_clone_cmd, ''.'')])
     @ [(''git checkout tags/'' @ fmt sys (val (getitem2 d ''openshift'' ''ansible_tag'')),
         ''openshift-ansible'')]"

definition pre_openshift_commands :: "'w sys \<Rightarrow> yaml \<Rightarrow> (string \<times> string) list" where
  "pre_openshift_commands sys d =
     [(''ansible-playbook site.yaml ''
       @ (if generate_cert d then public_hostname_arg sys d else [])
       @ '' -i ../../openshift/inventories/''
       @ fmt sys (val (getitem2 d ''openshift'' ''inventory_dir'')) @ ''/inventory'',
       ''ansible/pre-os'')]"

definition play_items :: "yaml \<Rightarrow> yaml list" where
  "play_items d =
     (case getitem2 d ''openshift'' ''play'' of
        Inl e \<Rightarrow> []
      | Inr play_list \<Rightarrow> (case py_iter play_list of Inl e \<Rightarrow> [] | Inr plays \<Rightarrow> plays))"

definition openshift_commands :: "'w sys \<Rightarrow> yaml \<Rightarrow> (string \<times> string) list" where
  "openshift_commands sys d =
     map (\<lambda>play. (play_cmd sys play (val (getitem2 d ''openshift'' ''inventory_dir'')), ''openshift''))
       (play_items d)"

definition post_openshift_commands :: "(string \<times> string) list" where
  "post_openshift_commands = [(''ansible-playbook site.yaml'', ''ansible/post-os'')]"

text \<open>
  The stage groups in the order the function reaches them, each with its skip flag
  (\<open>False\<close> for a group that has none). \<open>clone_present\<close> says whether the clone
  directory is there when the checkout group starts.
\<close>

definition stage_groups ::
  "'w sys \<Rightarrow> cli_args \<Rightarrow> string \<Rightarrow> yaml \<Rightarrow> bool \<Rightarrow> (bool \<times> (string \<times> string) list) list" where
  "stage_groups sys a n d clone_present =
     [(skip_rendering a, render_commands n),
      (False, ansible_commands sys d)]
     @ (if cluster a then
          [(skip_terraform a, terraform_commands sys n d),
           (skip_pre_openshift a, bastion_commands sys d),
           (skip_terraform a, terraform_output_commands sys n d)]
        else
          [(False, clone_commands sys d clone_present),
           (skip_pre_openshift a, pre_openshift_commands sys d),
           (skip_openshift a, openshift_commands sys d),
           (skip_post_openshift a, post_openshift_commands)])"

text \<open>The groups whose skip flag is not set, in order.\<close>

definition unskipped :: "(bool \<times> 'a) list \<Rightarrow> 'a list" where
  "unskipped groups = map snd (filter (\<lambda>g. \<not> fst g) groups)"

definition unskipped_commands ::
  "'w sys \<Rightarrow> cli_args \<Rightarrow> string \<Rightarrow> yaml \<Rightarrow> bool \<Rightarrow> (string \<times> string) list" where
  "unskipped_commands sys a n d clone_present =
     concat (unskipped (stage_groups sys a n d clone_present))"

text \<open>The fields of the configuration a complete run reads, in the order it reads them.\<close>

definition cert_fields :: "yaml \<Rightarrow> (py_error + yaml) list" where
  "cert_fields d =
     getitem3 d ''cluster'' ''master'' ''generate_cert''
     # (if generate_cert d then [getitem2 d ''cluster'' ''public_hostname''] else [])"

definition required_fields :: "cli_args \<Rightarrow> yaml \<Rightarrow> (py_error + yaml) list" where
  "required_fields a d =
     [getitem2 d ''openshift'' ''inventory_dir'', getitem d ''name'',
      getitem2 d ''ansible'' ''version'', getitem2 d ''terraform'' ''dir'']
     @ (if cluster a then
          (if skip_pre_openshift a then [] else cert_fields d)
        else
          [getitem2 d ''openshift'' ''ansible_tag'']
          @ (if skip_pre_openshift a then [] else cert_fields d)
          @ (if skip_openshift a then [] else [getitem2 d ''openshift'' ''play'']))"

text \<open>The confirmation question does not stop the run: it is not asked, or the operator
  types the word.\<close>

definition confirmed :: "'w sys \<Rightarrow> cli_args \<Rightarrow> 'w \<Rightarrow> bool" where
  "confirmed sys a w =
     (auto_acknowledge a
      \<or> input sys (confirmation_prompt a (io_get_confirmation_word sys w)) w
          = Some (io_get_confirmation_word sys w))"

text \<open>
  \<open>stage_runs g m w X F\<close>: started in \<open>w\<close>, the block \<open>m\<close> hands to \<open>io.run\<close> an initial
  part of the commands \<open>X\<close>; when it falls through to the next statement it has run all
  of \<open>X\<close> and found every field of \<open>F\<close>; and (with the confirmation given, \<open>g\<close>) it does
  not return \<open>True\<close>. \<open>completes\<close> is the same for a block that ends the function.
\<close>

definition stage_runs ::
  "bool \<Rightarrow> ('w, 'a) prog \<Rightarrow> 'w \<Rightarrow> (string \<times> string) list \<Rightarrow> (py_error + yaml) list \<Rightarrow> bool" where
  "stage_runs g m w X F =
     (case m w of (r, es, w') \<Rightarrow>
        prefix (commands es) X \<and> (g \<longrightarrow> r \<noteq> Return True)
        \<and> (case r of Next x \<Rightarrow> commands es = X \<and> list_all present F | _ \<Rightarrow> True))"

definition completes ::
  "bool \<Rightarrow> ('w, 'a) prog \<Rightarrow> 'w \<Rightarrow> (string \<times> string) list \<Rightarrow> (py_error + yaml) list \<Rightarrow> bool" where
  "completes g m w X F =
     (case m w of (r, es, w') \<Rightarrow>
        prefix (commands es) X \<and> (\<forall>x. r \<noteq> Next x)
        \<and> (g \<and> r = Return True \<longrightarrow> commands es = X \<and> list_all present F))"



text \<open>Every command of a log succeeded.\<close>

fun all_succeeded :: "event list \<Rightarrow> bool" where
  "all_succeeded [] = True"
| "all_succeeded (Run cmd cwd rv # es) = (rv \<and> all_succeeded es)"
| "all_succeeded (_ # es) = all_succeeded es"


text \<open>
  The lookups and the commands of a run in the order the function reaches them: a step
  is a lookup in the configuration or a command handed to \<open>io.run\<close>. In
  \<open>install_ansible\<close> the version is looked up between the two pip commands, in \<open>clone\<close>
  the tag after the clone command; the stages with a skip flag look up their fields
  before their commands.
\<close>

datatype step = Lookup "py_error + yaml" | Command "string \<times> string"



text \<open>The commands in front of the first lookup that fails (all of them when none fails),
  and the error of that lookup.\<close>

fun reached :: "step list \<Rightarrow> (string \<times> string) list" where
  "reached [] = []"
| "reached (Lookup (Inl e) # steps) = []"
| "reached (Lookup (Inr v) # steps) = reached steps"
| "reached (Command c # steps) = c # reached steps"

fun failure :: "step list \<Rightarrow> py_error option" where
  "failure [] = None"
| "failure (Lookup (Inl e) # steps) = Some e"
| "failure (Lookup (Inr v) # steps) = failure steps"
| "failure (Command c # steps) = failure steps"

text \<open>The lookups of a list of steps, and its commands.\<close>

fun lookups_of :: "step list \<Rightarrow> (py_error + yaml) list" where
  "lookups_of [] = []"
| "lookups_of (Lookup r # steps) = r # lookups_of steps"
| "lookups_of (Command c # steps) = lookups_of steps"

fun commands_of :: "step list \<Rightarrow> (string \<times> string) list" where
  "commands_of [] = []"
| "commands_of (Lookup r # steps) = commands_of steps"
| "commands_of (Command c # steps) = c # commands_of steps"

text \<open>
  \<open>follows need steps m w\<close>: when every command the block \<open>m\<close> runs succeeds and what it
  needs besides the fields is there, the block has run the commands in front of the first
  failing lookup of \<open>steps\<close> and raises the error of that lookup, or, when no lookup
  fails, has run every command of \<open>steps\<close> and falls through to the next statement.
  \<open>follows_to_end\<close> is the same for a block that ends the function with \<open>return True\<close>.
\<close>

definition follows :: "bool \<Rightarrow> step list \<Rightarrow> ('w, 'a) prog \<Rightarrow> 'w \<Rightarrow> bool" where
  "follows need steps m w =
     (case m w of (r, es, w') \<Rightarrow>
        all_succeeded es \<and> need \<longrightarrow>
        commands es = reached steps
        \<and> (case failure steps of None \<Rightarrow> (\<exists>x. r = Next x) | Some e \<Rightarrow> r = Raise e))"


subsection \<open>The specification's reading\<close>


text \<open>The state file the specification names for a deployment: \<open>.state.<deployment-name>\<close>.\<close>

definition spec_state_file :: "string \<Rightarrow> string" where
  "spec_state_file deployment_name = ''.state.'' @ deployment_name"

subsection \<open>A small world to run the script in\<close>

text \<open>
  A world is the list of the paths that exist. Every command succeeds unless it is
  listed in \<open>failing\<close>; a successful \<open>git clone\<close> creates the clone directory. The
  operator answers \<open>response\<close> when asked for the word \<open>tiger\<close>.
\<close>

definition demo_config :: yaml where
  "demo_config = YMap
     [(''name'', YStr ''demo''),
      (''openshift'', YMap [(''inventory_dir'', YStr ''inv''), (''ansible_tag'', YStr ''v1''),
                            (''play'', YList [YStr ''A'', YStr ''B'', YStr ''C''])]),
      (''ansible'', YMap [(''version'', YStr ''2.7'')]),
      (''terraform'', YMap [(''dir'', YStr ''t'')]),
      (''cluster'', YMap [(''master'', YMap [(''generate_cert'', YBool False)]),
                          (''public_hostname'', YStr ''h'')])]"

definition demo_sys ::
  "string list \<Rightarrow> (string \<times> string) list \<Rightarrow> yaml \<Rightarrow> string \<Rightarrow> (string list) sys" where
  "demo_sys failing env config response =
     \<lparr> os_path_exists = (\<lambda>w path. path \<in> set w),
       os_path_isdir = (\<lambda>w path. path \<in> set w),
       os_environ = map_of env,
       yaml_load = (\<lambda>w path. if path = ''deployments/demo.yaml'' then Inr config else Inl IOError),
       glob_glob = (\<lambda>w pattern. [''deployments/demo.yaml'']),
       io_run = (\<lambda>cmd cwd q w.
          if cmd \<in> set failing then (False, w)
          else (True, if cmd = git_clone_cmd then ''openshift-ansible'' # w else w)),
       io_get_confirmation_word = (\<lambda>w. ''tiger''),
       input = (\<lambda>prompt w. Some response),
       py_repr = (\<lambda>v. ''?'') \<rparr>"

definition demo_world :: "string list" where
  "demo_world = [''deployments/demo.yaml'', ''openshift/inventories/inv'']"

definition demo_args :: cli_args where
  "demo_args = \<lparr> quiet = False, cluster = False, okd = True, display_deployments = False,
       skip_rendering = False, skip_terraform = False, skip_pre_openshift = False,
       skip_openshift = False, skip_post_openshift = False, auto_acknowledge = True,
       DEPLOYMENT = None \<rparr>"

section \<open>Lemmas about blocks\<close>

subsection \<open>Running a block\<close>

lemma ok_apply [simp]: "ok x w = (Next x, [], w)"
  by (simp add: ok_def)

lemma ret_apply [simp]: "ret b w = (Return b, [], w)"
  by (simp add: ret_def)

lemma raise_apply [simp]: "raise e w = (Raise e, [], w)"
  by (simp add: raise_def)

lemma emit_apply [simp]: "emit e w = (Next (), [e], w)"
  by (simp add: emit_def)

lemma ask_apply [simp]: "ask f w = (Next (f w), [], w)"
  by (simp add: ask_def)

lemma lift_apply [simp]:
  "lift r w = (case r of Inl e \<Rightarrow> (Raise e, [], w) | Inr x \<Rightarrow> (Next x, [], w))"
  by (simp add: lift_def split: sum.splits)

lemma bind_apply:
  "bind m f w = (case m w of
       (Next x, es, w') \<Rightarrow> (case f x w' of (r, es', w'') \<Rightarrow> (r, es @ es', w''))
     | (Return b, es, w') \<Rightarrow> (Return b, es, w')
     | (Raise e, es, w') \<Rightarrow> (Raise e, es, w'))"
  by (simp add: bind_def)

lemma run_checked_apply:
  "run_checked sys cmd cwd q w =
     (case io_run sys cmd cwd q w of
        (rv, w') \<Rightarrow> (if rv then Next () else Return False, [Run cmd cwd rv], w'))"
  by (simp add: run_checked_def run_def bind_apply split: prod.splits)


lemma load_deployment_Next:
  assumes "load_deployment sys n w = (Next (d, idir), es, w')"
  shows "es = [] \<and> w' = w \<and> os_path_exists sys w (''deployments/'' @ n @ ''.yaml'')
     \<and> yaml_load sys w (''deployments/'' @ n @ ''.yaml'') = Inr d
     \<and> getitem2 d ''openshift'' ''inventory_dir'' = Inr idir
     \<and> os_path_isdir sys w (''openshift/inventories/'' @ fmt sys idir)"
  using assms
  by (auto simp add: load_deployment_def bind_apply Let_def split: if_splits sum.splits)

lemmas stage_defs = load_deployment_def hello_def render_def install_ansible_def terraform_def
  bastion_def terraform_output_def clone_def pre_openshift_def openshift_def post_openshift_def
  before_mode_def cluster_mode_def install_mode_def main_def confirmation_prompt_def play_cmd_def
  fmt_def environ_def getitem2_def getitem3_def terraform_apply_cmd_def terraform_output_cmd_def
  state_file_def git_clone_cmd_def Let_def

lemmas demo_defs = demo_sys_def demo_config_def demo_world_def demo_args_def

lemma bind_cases:
  assumes "bind m f w = (r, es, w')"
  obtains (continues) x e1 w1 e2 where "m w = (Next x, e1, w1)" "f x w1 = (r, e2, w')" "es = e1 @ e2"
    | (returns) b where "m w = (Return b, es, w')" "r = Return b"
    | (raises) e where "m w = (Raise e, es, w')" "r = Raise e"
  using assms
  by (auto simp add: bind_apply split: prod.splits outcome.splits)

lemma run_checked_cases:
  assumes "run_checked sys cmd cwd q w = (r, es, w')"
  obtains (succeeded) "io_run sys cmd cwd q w = (True, w')" "r = Next ()" "es = [Run cmd cwd True]"
    | (failed) "io_run sys cmd cwd q w = (False, w')" "r = Return False" "es = [Run cmd cwd False]"
  using assms
  by (auto simp add: run_checked_apply split: prod.splits if_splits)

lemma commands_append [simp]: "commands (xs @ ys) = commands xs @ commands ys"
  by (induction xs rule: commands.induct) simp_all

lemma hello_declined:
  assumes "getitem d ''name'' = Inr nm" and "\<not> auto_acknowledge a"
    and "input sys (confirmation_prompt a (io_get_confirmation_word sys w)) w = Some response"
    and "response \<noteq> io_get_confirmation_word sys w"
  shows "hello sys a d w =
     (Return True,
      [Banner nm, Prompt (confirmation_prompt a (io_get_confirmation_word sys w)),
       Print ''Phew! That was close!''], w)"
  using assms by (simp add: hello_def bind_apply)

lemma hello_Next:
  assumes "hello sys a d w = (Next x, es, w')"
  shows "commands es = [] \<and> w' = w"
  using assms
  by (auto simp add: hello_def bind_apply split: sum.splits if_splits option.splits)

lemma render_Next:
  assumes "render sys a n w = (Next x, es, w')"
  shows "commands es = (if skip_rendering a then [] else [(''./render.py '' @ n, ''.'')])"
  using assms
  by (auto simp add: render_def run_checked_apply split: if_splits prod.splits)

lemma install_ansible_cases:
  assumes "getitem2 d ''ansible'' ''version'' = Inr v"
    and "install_ansible sys a d w = (r, es, w')"
  shows "(r = Return False \<and> es = [Run ''pip install --upgrade pip'' ''.'' False])
       \<or> (r = Return False \<and> es = [Run ''pip install --upgrade pip'' ''.'' True,
                                     Run (''pip install ansible=='' @ fmt sys v) ''.'' False])
       \<or> (r = Next () \<and> es = [Run ''pip install --upgrade pip'' ''.'' True,
                                Run (''pip install ansible=='' @ fmt sys v) ''.'' True])"
  using assms
  by (auto simp add: install_ansible_def bind_apply run_checked_apply split: if_splits prod.splits)

lemma openshift_plays_shape:
  assumes "openshift_plays sys q idir plays w = (r, es, w')"
  shows "\<exists>k\<le>length plays.
           es = map (\<lambda>p. Run (play_cmd sys p idir) ''openshift'' True) (take k plays)
                @ (if k < length plays then [Run (play_cmd sys (plays ! k) idir) ''openshift'' False]
                   else [])
         \<and> r = (if k < length plays then Return False else Next ())"
  using assms
proof (induction plays arbitrary: w r es w')
  case Nil
  then show ?case by simp
next
  case (Cons play plays)
  from Cons.prems
  have "bind (run_checked sys (play_cmd sys play idir) ''openshift'' q)
          (\<lambda>_. openshift_plays sys q idir plays) w = (r, es, w')"
    by simp
  then show ?case
  proof (cases rule: bind_cases)
    case (continues x e1 w1 e2)
    from continues(1) have e1: "e1 = [Run (play_cmd sys play idir) ''openshift'' True]"
      by (cases rule: run_checked_cases) simp_all
    from Cons.IH [OF continues(2)] obtain k where k: "k \<le> length plays"
      "e2 = map (\<lambda>p. Run (play_cmd sys p idir) ''openshift'' True) (take k plays)
                @ (if k < length plays then [Run (play_cmd sys (plays ! k) idir) ''openshift'' False]
                   else [])"
      "r = (if k < length plays then Return False else Next ())"
      by blast
    show ?thesis
      by (rule exI [where x = "Suc k"]) (use k e1 continues(3) in simp)
  next
    case (returns b)
    from returns(1) have "es = [Run (play_cmd sys play idir) ''openshift'' False]" "b = False"
      by (cases rule: run_checked_cases; simp)+
    then show ?thesis
      using returns(2) by (intro exI [where x = 0]) simp
  next
    case (raises e)
    from raises(1) show ?thesis
      by (cases rule: run_checked_cases) simp_all
  qed
qed

lemma post_openshift_shape:
  assumes "post_openshift sys a w = (r, es, w')"
  shows "(es = [] \<and> r = Next ())
       \<or> (\<exists>rv. es = [Run ''ansible-playbook site.yaml'' ''ansible/post-os'' rv]
               \<and> r = (if rv then Next () else Return False))"
  using assms
  by (auto simp add: post_openshift_def run_checked_apply split: if_splits prod.splits)

subsection \<open>What a run does not depend on\<close>

lemma fmt_environ: "fmt (sys\<lparr>os_environ := e\<rparr>) v = fmt sys v"
  by (simp add: fmt_def split: yaml.splits)

lemma run_checked_environ:
  "run_checked (sys\<lparr>os_environ := e\<rparr>) cmd cwd q = run_checked sys cmd cwd q"
  by (simp add: run_checked_def run_def)

lemma openshift_plays_environ:
  "openshift_plays (sys\<lparr>os_environ := e\<rparr>) q idir plays = openshift_plays sys q idir plays"
  by (induction plays) (simp_all add: play_cmd_def fmt_environ run_checked_environ)

lemma stages_ignore_okd:
  "hello sys (ARGS\<lparr>okd := b\<rparr>) d = hello sys ARGS d"
  "render sys (ARGS\<lparr>okd := b\<rparr>) n = render sys ARGS n"
  "install_ansible sys (ARGS\<lparr>okd := b\<rparr>) d = install_ansible sys ARGS d"
  "terraform sys (ARGS\<lparr>okd := b\<rparr>) n t = terraform sys ARGS n t"
  "bastion sys (ARGS\<lparr>okd := b\<rparr>) d idir = bastion sys ARGS d idir"
  "terraform_output sys (ARGS\<lparr>okd := b\<rparr>) n t = terraform_output sys ARGS n t"
  "clone sys (ARGS\<lparr>okd := b\<rparr>) d = clone sys ARGS d"
  "pre_openshift sys (ARGS\<lparr>okd := b\<rparr>) d idir = pre_openshift sys ARGS d idir"
  "openshift sys (ARGS\<lparr>okd := b\<rparr>) d idir = openshift sys ARGS d idir"
  "post_openshift sys (ARGS\<lparr>okd := b\<rparr>) = post_openshift sys ARGS"
  by (simp_all add: hello_def confirmation_prompt_def render_def install_ansible_def terraform_def
      bastion_def terraform_output_def clone_def pre_openshift_def openshift_def post_openshift_def
      cong: if_cong)

lemma main_ignores_okd: "main sys (ARGS\<lparr>okd := b\<rparr>) n = main sys ARGS n"
  by (simp add: main_def before_mode_def cluster_mode_def install_mode_def stages_ignore_okd split_def
      cong: if_cong)

lemma select_deployment_ignores_okd:
  "select_deployment (ARGS\<lparr>okd := b\<rparr>) first others = select_deployment ARGS first others"
  by (simp add: select_deployment_def)

lemma stages_ignore_environ:
  "load_deployment (sys\<lparr>os_environ := e\<rparr>) n = load_deployment sys n"
  "hello (sys\<lparr>os_environ := e\<rparr>) a d = hello sys a d"
  "render (sys\<lparr>os_environ := e\<rparr>) a n = render sys a n"
  "install_ansible (sys\<lparr>os_environ := e\<rparr>) a d = install_ansible sys a d"
  "terraform (sys\<lparr>os_environ := e\<rparr>) a n t = terraform sys a n t"
  "skip_pre_openshift a \<Longrightarrow> bastion (sys\<lparr>os_environ := e\<rparr>) a d idir = bastion sys a d idir"
  "terraform_output (sys\<lparr>os_environ := e\<rparr>) a n t = terraform_output sys a n t"
  "clone (sys\<lparr>os_environ := e\<rparr>) a d = clone sys a d"
  "pre_openshift (sys\<lparr>os_environ := e\<rparr>) a d idir = pre_openshift sys a d idir"
  "openshift (sys\<lparr>os_environ := e\<rparr>) a d idir = openshift sys a d idir"
  "post_openshift (sys\<lparr>os_environ := e\<rparr>) a = post_openshift sys a"
  by (simp_all add: load_deployment_def hello_def render_def install_ansible_def terraform_def
      bastion_def terraform_output_def clone_def pre_openshift_def openshift_def post_openshift_def
      fmt_environ run_checked_environ openshift_plays_environ Let_def cong: if_cong)

lemma main_environ:
  assumes "\<not> cluster a \<or> skip_pre_openshift a"
  shows "main (sys\<lparr>os_environ := e\<rparr>) a n = main sys a n"
  using assms
  by (auto simp add: main_def before_mode_def cluster_mode_def install_mode_def stages_ignore_environ
      split_def cong: if_cong)

subsection \<open>Stages and the commands they run\<close>

lemma stage_runs_bind:
  assumes "stage_runs g m w X F"
    and "\<And>x es w1. m w = (Next x, es, w1) \<Longrightarrow> stage_runs g (f x) w1 Y G"
  shows "stage_runs g (bind m f) w (X @ Y) (F @ G)"
proof (cases "m w" rule: prod_cases3)
  case (fields r es w1)
  show ?thesis
  proof (cases r)
    case (Next x)
    with fields assms(2) have "stage_runs g (f x) w1 Y G"
      by simp
    with fields Next assms(1) show ?thesis
      by (auto simp add: stage_runs_def bind_apply split: prod.splits outcome.splits)
  next
    case (Return b)
    with fields assms(1) show ?thesis
      by (auto simp add: stage_runs_def bind_apply)
  next
    case (Raise e)
    with fields assms(1) show ?thesis
      by (auto simp add: stage_runs_def bind_apply)
  qed
qed

lemma completes_bind:
  assumes "stage_runs g m w X F"
    and "\<And>x es w1. m w = (Next x, es, w1) \<Longrightarrow> \<exists>c. completes g (f x) w1 (Y c) G"
  shows "\<exists>c. completes g (bind m f) w (X @ Y c) (F @ G)"
proof (cases "m w" rule: prod_cases3)
  case (fields r es w1)
  show ?thesis
  proof (cases r)
    case (Next x)
    with fields assms(2) obtain c where "completes g (f x) w1 (Y c) G"
      by blast
    with fields Next assms(1) have "completes g (bind m f) w (X @ Y c) (F @ G)"
      by (auto simp add: stage_runs_def completes_def bind_apply split: prod.splits outcome.splits)
    then show ?thesis ..
  next
    case (Return b)
    with fields assms(1) have "completes g (bind m f) w (X @ Y undefined) (F @ G)"
      by (auto simp add: stage_runs_def completes_def bind_apply)
    then show ?thesis ..
  next
    case (Raise e)
    with fields assms(1) have "completes g (bind m f) w (X @ Y undefined) (F @ G)"
      by (auto simp add: stage_runs_def completes_def bind_apply)
    then show ?thesis ..
  qed
qed

lemma completes_ret_True: "completes g (ret True) w [] []"
  by (simp add: completes_def)

lemma stage_runs_run_checked: "stage_runs g (run_checked sys cmd cwd q) w [(cmd, cwd)] []"
  by (simp add: stage_runs_def run_checked_apply split: prod.splits)

lemma stage_runs_ok: "stage_runs g (ok x) w [] []"
  by (simp add: stage_runs_def)

lemma stage_runs_lift: "stage_runs g (lift r) w [] [r]"
  by (simp add: stage_runs_def present_def split: sum.splits)

lemma val_Inr [simp]: "val (Inr v) = v"
  by (simp add: val_def)

lemma present_Inr [simp]: "present (Inr v)"
  by (simp add: present_def)

lemma render_runs:
  "stage_runs g (render sys a n) w (if skip_rendering a then [] else render_commands n) []"
  by (simp add: render_def render_commands_def stage_runs_run_checked stage_runs_ok)

lemma install_ansible_runs:
  "stage_runs g (install_ansible sys a d) w (ansible_commands sys d) [getitem2 d ''ansible'' ''version'']"
  by (auto simp add: stage_runs_def install_ansible_def ansible_commands_def bind_apply
      run_checked_apply present_def split: prod.splits sum.splits)

lemma terraform_runs:
  assumes "getitem2 d ''terraform'' ''dir'' = Inr t"
  shows "stage_runs g (terraform sys a n t) w
           (if skip_terraform a then [] else terraform_commands sys n d) []"
  using assms
  by (auto simp add: stage_runs_def terraform_def terraform_commands_def terraform_cwd_def bind_apply
      run_checked_apply split: prod.splits)

lemma terraform_output_runs:
  assumes "getitem2 d ''terraform'' ''dir'' = Inr t"
  shows "stage_runs g (terraform_output sys a n t) w
           (if skip_terraform a then [] else terraform_output_commands sys n d) []"
  using assms
  by (auto simp add: stage_runs_def terraform_output_def terraform_output_commands_def
      terraform_cwd_def run_checked_apply split: prod.splits)

lemma bastion_runs:
  assumes "getitem2 d ''openshift'' ''inventory_dir'' = Inr idir"
  shows "stage_runs g (bastion sys a d idir) w
           (if skip_pre_openshift a then [] else bastion_commands sys d)
           (if skip_pre_openshift a then [] else cert_fields d)"
  using assms
  by (auto simp add: stage_runs_def bastion_def bastion_commands_def cert_fields_def generate_cert_def
      public_hostname_arg_def environ_def env_val_def bind_apply run_checked_apply present_def
      split: prod.splits sum.splits option.splits)

lemma pre_openshift_runs:
  assumes "getitem2 d ''openshift'' ''inventory_dir'' = Inr idir"
  shows "stage_runs g (pre_openshift sys a d idir) w
           (if skip_pre_openshift a then [] else pre_openshift_commands sys d)
           (if skip_pre_openshift a then [] else cert_fields d)"
  using assms
  by (auto simp add: stage_runs_def pre_openshift_def pre_openshift_commands_def cert_fields_def
      generate_cert_def public_hostname_arg_def bind_apply run_checked_apply present_def
      split: prod.splits sum.splits)

lemma clone_runs:
  "stage_runs g (clone sys a d) w
     (clone_commands sys d (os_path_exists sys w ''openshift-ansible''))
     [getitem2 d ''openshift'' ''ansible_tag'']"
  by (auto simp add: stage_runs_def clone_def clone_commands_def bind_apply run_checked_apply
      present_def split: prod.splits sum.splits)

lemma openshift_plays_runs:
  "stage_runs g (openshift_plays sys q idir plays) w
     (map (\<lambda>play. (play_cmd sys play idir, ''openshift'')) plays) []"
proof (induction plays arbitrary: w)
  case Nil
  show ?case by (simp add: stage_runs_def)
next
  case (Cons play plays)
  have "stage_runs g (bind (run_checked sys (play_cmd sys play idir) ''openshift'' q)
            (\<lambda>_. openshift_plays sys q idir plays)) w
          ([(play_cmd sys play idir, ''openshift'')]
           @ map (\<lambda>play. (play_cmd sys play idir, ''openshift'')) plays) ([] @ [])"
    by (rule stage_runs_bind [OF stage_runs_run_checked Cons.IH])
  then show ?case by simp
qed

lemma openshift_runs:
  assumes "getitem2 d ''openshift'' ''inventory_dir'' = Inr idir"
  shows "stage_runs g (openshift sys a d idir) w
           (if skip_openshift a then [] else openshift_commands sys d)
           (if skip_openshift a then [] else [getitem2 d ''openshift'' ''play''])"
proof (cases "skip_openshift a")
  case True
  then show ?thesis by (simp add: openshift_def stage_runs_ok)
next
  case False
  show ?thesis
  proof (cases "getitem2 d ''openshift'' ''play''")
    case (Inl e)
    with False show ?thesis
      by (simp add: openshift_def stage_runs_def bind_apply)
  next
    case (Inr play_list)
    show ?thesis
    proof (cases "py_iter play_list")
      case (Inl e)
      with Inr False show ?thesis
        by (simp add: openshift_def stage_runs_def bind_apply)
    next
      case plays: (Inr plays)
      have "openshift sys a d idir w = openshift_plays sys (quiet a) idir plays w"
        using False Inr plays by (simp add: openshift_def bind_apply)
      moreover have "openshift_commands sys d = map (\<lambda>play. (play_cmd sys play idir, ''openshift'')) plays"
        using assms Inr plays by (simp add: openshift_commands_def play_items_def)
      ultimately show ?thesis
        using openshift_plays_runs [of g sys "quiet a" idir plays w] False Inr
        by (auto simp add: stage_runs_def split: prod.splits outcome.splits)
    qed
  qed
qed

lemma post_openshift_runs:
  "stage_runs g (post_openshift sys a) w
     (if skip_post_openshift a then [] else post_openshift_commands) []"
  by (simp add: post_openshift_def post_openshift_commands_def stage_runs_run_checked stage_runs_ok)

lemma hello_runs:
  "stage_runs (confirmed sys a w) (hello sys a d) w [] [getitem d ''name'']"
  by (auto simp add: stage_runs_def confirmed_def hello_def bind_apply present_def
      split: sum.splits option.splits)

lemma completes_bind_stage:
  assumes "stage_runs g m w X F"
    and "\<And>x es w1. m w = (Next x, es, w1) \<Longrightarrow> completes g (f x) w1 Y G"
  shows "completes g (bind m f) w (X @ Y) (F @ G)"
  using completes_bind [where Y = "\<lambda>_::unit. Y", OF assms(1)] assms(2)
  by blast

lemma stage_runs_present:
  assumes "stage_runs g m w X F" and "list_all present P"
  shows "stage_runs g m w X (P @ F)"
  using assms
  by (auto simp add: stage_runs_def split: prod.splits outcome.splits)

lemma load_deployment_runs: "stage_runs g (load_deployment sys n) w [] []"
  by (auto simp add: stage_runs_def load_deployment_def bind_apply Let_def split: sum.splits)

lemma before_mode_Next:
  assumes "before_mode sys a n w = (Next (d, idir, t), es, w1)"
  shows "yaml_load sys w (''deployments/'' @ n @ ''.yaml'') = Inr d
       \<and> getitem2 d ''openshift'' ''inventory_dir'' = Inr idir
       \<and> getitem2 d ''terraform'' ''dir'' = Inr t"
proof -
  from assms obtain d' idir' e0 w0 where
    l: "load_deployment sys n w = (Next (d', idir'), e0, w0)"
    and rest: "fst (bind (hello sys a d') (\<lambda>_.
           bind (render sys a n) (\<lambda>_.
           bind (install_ansible sys a d') (\<lambda>_.
           bind (lift (getitem2 d' ''terraform'' ''dir'')) (\<lambda>t_dir.
           ok (d', idir', t_dir))))) w0) = Next (d, idir, t)"
    unfolding before_mode_def
    by (cases rule: bind_cases) (auto split: prod.splits)
  from rest have "d' = d \<and> idir' = idir \<and> getitem2 d' ''terraform'' ''dir'' = Inr t"
    by (auto simp add: bind_apply split: prod.splits outcome.splits sum.splits)
  with load_deployment_Next [OF l] show ?thesis
    by auto
qed

lemma before_mode_runs:
  assumes "yaml_load sys w (''deployments/'' @ n @ ''.yaml'') = Inr d"
  shows "stage_runs (confirmed sys a w) (before_mode sys a n) w
           ((if skip_rendering a then [] else render_commands n) @ ansible_commands sys d)
           [getitem2 d ''openshift'' ''inventory_dir'', getitem d ''name'',
            getitem2 d ''ansible'' ''version'', getitem2 d ''terraform'' ''dir'']"
proof -
  let ?g = "confirmed sys a w"
  let ?R = "if skip_rendering a then [] else render_commands n"
  have rest: "stage_runs ?g
       (case x of (deployment, inventory_dir) \<Rightarrow>
          bind (hello sys a deployment) (\<lambda>_.
          bind (render sys a n) (\<lambda>_.
          bind (install_ansible sys a deployment) (\<lambda>_.
          bind (lift (getitem2 deployment ''terraform'' ''dir'')) (\<lambda>t_dir.
          ok (deployment, inventory_dir, t_dir)))))) w1
       ([] @ ?R @ ansible_commands sys d @ [] @ [])
       ([getitem2 d ''openshift'' ''inventory_dir'']
        @ [getitem d ''name''] @ [] @ [getitem2 d ''ansible'' ''version'']
        @ [getitem2 d ''terraform'' ''dir''] @ [])"
    if "load_deployment sys n w = (Next x, es, w1)" for x es w1
  proof -
    obtain d' idir where x: "x = (d', idir)"
      by (cases x)
    from load_deployment_Next [OF that [unfolded x]] assms
    have eq: "d' = d" "w1 = w" and inv: "getitem2 d ''openshift'' ''inventory_dir'' = Inr idir"
      by simp_all
    have "stage_runs ?g
       (bind (hello sys a d) (\<lambda>_.
          bind (render sys a n) (\<lambda>_.
          bind (install_ansible sys a d) (\<lambda>_.
          bind (lift (getitem2 d ''terraform'' ''dir'')) (\<lambda>t_dir.
          ok (d, idir, t_dir)))))) w
       ([] @ ?R @ ansible_commands sys d @ [] @ [])
       ([getitem d ''name''] @ [] @ [getitem2 d ''ansible'' ''version'']
        @ [getitem2 d ''terraform'' ''dir''] @ [])"
      by (intro stage_runs_bind hello_runs render_runs install_ansible_runs stage_runs_lift
          stage_runs_ok)
    from stage_runs_present [OF this, of "[getitem2 d ''openshift'' ''inventory_dir'']"] inv
    show ?thesis
      using x eq by simp
  qed
  have "stage_runs ?g (before_mode sys a n) w
          ([] @ ([] @ ?R @ ansible_commands sys d @ [] @ []))
          ([] @ ([getitem2 d ''openshift'' ''inventory_dir'']
        @ [getitem d ''name''] @ [] @ [getitem2 d ''ansible'' ''version'']
        @ [getitem2 d ''terraform'' ''dir''] @ []))"
    unfolding before_mode_def
    by (rule stage_runs_bind [OF load_deployment_runs rest])
  then show ?thesis
    by simp
qed

lemma cluster_mode_completes:
  assumes "getitem2 d ''openshift'' ''inventory_dir'' = Inr idir"
    and "getitem2 d ''terraform'' ''dir'' = Inr t"
  shows "completes g (cluster_mode sys a n d idir t) w
           ((if skip_terraform a then [] else terraform_commands sys n d)
            @ (if skip_pre_openshift a then [] else bastion_commands sys d)
            @ (if skip_terraform a then [] else terraform_output_commands sys n d))
           (if skip_pre_openshift a then [] else cert_fields d)"
proof -
  have "completes g (cluster_mode sys a n d idir t) w
           ((if skip_terraform a then [] else terraform_commands sys n d)
            @ (if skip_pre_openshift a then [] else bastion_commands sys d)
            @ (if skip_terraform a then [] else terraform_output_commands sys n d) @ [])
           ([] @ (if skip_pre_openshift a then [] else cert_fields d) @ [] @ [])"
    unfolding cluster_mode_def
    by (intro completes_bind_stage terraform_runs bastion_runs terraform_output_runs
        completes_ret_True assms)
  then show ?thesis
    by (simp only: append_Nil append_Nil2)
qed

lemma install_mode_completes:
  assumes "getitem2 d ''openshift'' ''inventory_dir'' = Inr idir"
  shows "completes g (install_mode sys a d idir) w
           (clone_commands sys d (os_path_exists sys w ''openshift-ansible'')
            @ (if skip_pre_openshift a then [] else pre_openshift_commands sys d)
            @ (if skip_openshift a then [] else openshift_commands sys d)
            @ (if skip_post_openshift a then [] else post_openshift_commands))
           ([getitem2 d ''openshift'' ''ansible_tag'']
            @ (if skip_pre_openshift a then [] else cert_fields d)
            @ (if skip_openshift a then [] else [getitem2 d ''openshift'' ''play'']))"
proof -
  have "completes g (install_mode sys a d idir) w
           (clone_commands sys d (os_path_exists sys w ''openshift-ansible'')
            @ (if skip_pre_openshift a then [] else pre_openshift_commands sys d)
            @ (if skip_openshift a then [] else openshift_commands sys d)
            @ (if skip_post_openshift a then [] else post_openshift_commands) @ [])
           ([getitem2 d ''openshift'' ''ansible_tag'']
            @ (if skip_pre_openshift a then [] else cert_fields d)
            @ (if skip_openshift a then [] else [getitem2 d ''openshift'' ''play'']) @ [] @ [])"
    unfolding install_mode_def
    by (intro completes_bind_stage clone_runs pre_openshift_runs openshift_runs post_openshift_runs
        completes_ret_True assms)
  then show ?thesis
    by (simp only: append_Nil append_Nil2)
qed

lemma unskipped_commands_eq:
  "unskipped_commands sys a n d c =
     (if skip_rendering a then [] else render_commands n) @ ansible_commands sys d
     @ (if cluster a then
          (if skip_terraform a then [] else terraform_commands sys n d)
          @ (if skip_pre_openshift a then [] else bastion_commands sys d)
          @ (if skip_terraform a then [] else terraform_output_commands sys n d)
        else
          clone_commands sys d c
          @ (if skip_pre_openshift a then [] else pre_openshift_commands sys d)
          @ (if skip_openshift a then [] else openshift_commands sys d)
          @ (if skip_post_openshift a then [] else post_openshift_commands))"
  by (simp add: unskipped_commands_def unskipped_def stage_groups_def)

lemma mode_completes:
  assumes inv: "getitem2 d ''openshift'' ''inventory_dir'' = Inr idir"
    and t: "getitem2 d ''terraform'' ''dir'' = Inr t"
  shows "\<exists>c. completes g
       (if cluster a then cluster_mode sys a n d idir t else install_mode sys a d idir) w1
       (if cluster a then
          (if skip_terraform a then [] else terraform_commands sys n d)
          @ (if skip_pre_openshift a then [] else bastion_commands sys d)
          @ (if skip_terraform a then [] else terraform_output_commands sys n d)
        else
          clone_commands sys d c
          @ (if skip_pre_openshift a then [] else pre_openshift_commands sys d)
          @ (if skip_openshift a then [] else openshift_commands sys d)
          @ (if skip_post_openshift a then [] else post_openshift_commands))
       (if cluster a then (if skip_pre_openshift a then [] else cert_fields d)
        else
          [getitem2 d ''openshift'' ''ansible_tag'']
          @ (if skip_pre_openshift a then [] else cert_fields d)
          @ (if skip_openshift a then [] else [getitem2 d ''openshift'' ''play'']))"
proof (cases "cluster a")
  case True
  show ?thesis
    unfolding if_P [OF True]
    by (rule exI [where x = True]) (rule cluster_mode_completes [OF inv t])
next
  case False
  show ?thesis
    unfolding if_not_P [OF False]
    by (rule exI [where x = "os_path_exists sys w1 ''openshift-ansible''"])
      (rule install_mode_completes [OF inv])
qed

lemma main_rest:
  assumes "yaml_load sys w (''deployments/'' @ n @ ''.yaml'') = Inr d"
    and "before_mode sys a n w = (Next x, es, w1)"
  shows "\<exists>c. completes g
       (case x of (deployment, inventory_dir, t_dir) \<Rightarrow>
          if cluster a then cluster_mode sys a n deployment inventory_dir t_dir
          else install_mode sys a deployment inventory_dir) w1
       (if cluster a then
          (if skip_terraform a then [] else terraform_commands sys n d)
          @ (if skip_pre_openshift a then [] else bastion_commands sys d)
          @ (if skip_terraform a then [] else terraform_output_commands sys n d)
        else
          clone_commands sys d c
          @ (if skip_pre_openshift a then [] else pre_openshift_commands sys d)
          @ (if skip_openshift a then [] else openshift_commands sys d)
          @ (if skip_post_openshift a then [] else post_openshift_commands))
       (if cluster a then (if skip_pre_openshift a then [] else cert_fields d)
        else
          [getitem2 d ''openshift'' ''ansible_tag'']
          @ (if skip_pre_openshift a then [] else cert_fields d)
          @ (if skip_openshift a then [] else [getitem2 d ''openshift'' ''play'']))"
proof -
  obtain d' idir t where x: "x = (d', idir, t)"
    by (cases x)
  from before_mode_Next [OF assms(2) [unfolded x]] assms(1)
  have eq: "d' = d" and inv: "getitem2 d ''openshift'' ''inventory_dir'' = Inr idir"
    and t: "getitem2 d ''terraform'' ''dir'' = Inr t"
    by simp_all
  from mode_completes [OF inv t, of g a sys n w1] show ?thesis
    unfolding x eq by (simp only: prod.case)
qed

lemma main_completes:
  assumes "yaml_load sys w (''deployments/'' @ n @ ''.yaml'') = Inr d"
  shows "\<exists>c. completes (confirmed sys a w) (main sys a n) w
           (unskipped_commands sys a n d c) (required_fields a d)"
proof -
  have cmds: "unskipped_commands sys a n d c =
      ((if skip_rendering a then [] else render_commands n) @ ansible_commands sys d)
      @ (if cluster a then
          (if skip_terraform a then [] else terraform_commands sys n d)
          @ (if skip_pre_openshift a then [] else bastion_commands sys d)
          @ (if skip_terraform a then [] else terraform_output_commands sys n d)
        else
          clone_commands sys d c
          @ (if skip_pre_openshift a then [] else pre_openshift_commands sys d)
          @ (if skip_openshift a then [] else openshift_commands sys d)
          @ (if skip_post_openshift a then [] else post_openshift_commands))" for c
    by (simp only: unskipped_commands_eq append_assoc)
  have fields: "required_fields a d =
      [getitem2 d ''openshift'' ''inventory_dir'', getitem d ''name'',
       getitem2 d ''ansible'' ''version'', getitem2 d ''terraform'' ''dir'']
      @ (if cluster a then (if skip_pre_openshift a then [] else cert_fields d)
        else
          [getitem2 d ''openshift'' ''ansible_tag'']
          @ (if skip_pre_openshift a then [] else cert_fields d)
          @ (if skip_openshift a then [] else [getitem2 d ''openshift'' ''play'']))"
    by (simp only: required_fields_def)
  show ?thesis
    unfolding main_def cmds fields
    by (rule completes_bind [OF before_mode_runs [OF assms]]) (rule main_rest [OF assms])
qed

lemma main_loaded:
  assumes "main sys a n w = (r, es, w')" and "commands es \<noteq> []"
  shows "\<exists>d. yaml_load sys w (''deployments/'' @ n @ ''.yaml'') = Inr d"
proof -
  obtain r0 e0 w0 where l: "load_deployment sys n w = (r0, e0, w0)"
    by (metis prod_cases3)
  from load_deployment_runs [of False sys n w] l have none: "commands e0 = []"
    by (simp add: stage_runs_def)
  show ?thesis
  proof (cases r0)
    case (Next x)
    obtain d idir where "x = (d, idir)"
      by (cases x)
    with l Next load_deployment_Next [of sys n w d idir e0 w0] show ?thesis
      by blast
  next
    case (Return b)
    with l have "main sys a n w = (Return b, e0, w0)"
      by (simp add: main_def before_mode_def bind_apply)
    with assms none show ?thesis
      by simp
  next
    case (Raise e)
    with l have "main sys a n w = (Raise e, e0, w0)"
      by (simp add: main_def before_mode_def bind_apply)
    with assms none show ?thesis
      by simp
  qed
qed

lemma unskipped_commands_subset:
  "set (unskipped_commands sys a n d c) \<subseteq>
     set (render_commands n) \<union> set (ansible_commands sys d) \<union> set (terraform_commands sys n d)
     \<union> set (bastion_commands sys d) \<union> set (terraform_output_commands sys n d)
     \<union> set (clone_commands sys d c) \<union> set (pre_openshift_commands sys d)
     \<union> set (openshift_commands sys d) \<union> set post_openshift_commands"
  unfolding unskipped_commands_eq
  by (cases "cluster a"; cases "skip_rendering a"; cases "skip_terraform a";
      cases "skip_pre_openshift a"; cases "skip_openshift a"; cases "skip_post_openshift a")
    (simp_all add: subset_iff)

lemma group_commands_state_file:
  "\<forall>x \<in> set (render_commands n) \<union> set (ansible_commands sys d) \<union> set (terraform_commands sys n d)
     \<union> set (bastion_commands sys d) \<union> set (terraform_output_commands sys n d)
     \<union> set (clone_commands sys d c) \<union> set (pre_openshift_commands sys d)
     \<union> set (openshift_commands sys d) \<union> set post_openshift_commands.
     (prefix ''terraform apply'' (fst x) \<longrightarrow> fst x = ''terraform apply -auto-approve -state='' @ state_file n)
   \<and> (prefix ''terraform output'' (fst x) \<longrightarrow> fst x = ''terraform output -state='' @ state_file n)"
  by (simp add: ball_Un render_commands_def ansible_commands_def
      terraform_commands_def bastion_commands_def terraform_output_commands_def clone_commands_def
      pre_openshift_commands_def openshift_commands_def post_openshift_commands_def play_cmd_def
      terraform_apply_cmd_def terraform_output_cmd_def git_clone_cmd_def)

lemma unskipped_commands_state_file:
  assumes "(cmd, cwd) \<in> set (unskipped_commands sys a n d c)"
  shows "(prefix ''terraform apply'' cmd \<longrightarrow> cmd = ''terraform apply -auto-approve -state='' @ state_file n)
       \<and> (prefix ''terraform output'' cmd \<longrightarrow> cmd = ''terraform output -state='' @ state_file n)"
proof -
  from assms unskipped_commands_subset [of sys a n d c]
  have "(cmd, cwd) \<in> set (render_commands n) \<union> set (ansible_commands sys d)
     \<union> set (terraform_commands sys n d)
     \<union> set (bastion_commands sys d) \<union> set (terraform_output_commands sys n d)
     \<union> set (clone_commands sys d c) \<union> set (pre_openshift_commands sys d)
     \<union> set (openshift_commands sys d) \<union> set post_openshift_commands"
    by (rule subsetD [rotated])
  from bspec [OF group_commands_state_file this] show ?thesis
    by (simp only: fst_conv)
qed


subsection \<open>The checkout stage inside a run\<close>

lemma Run_in_commands: "Run cmd cwd rv \<in> set es \<Longrightarrow> (cmd, cwd) \<in> set (commands es)"
  by (induction es rule: commands.induct) auto

lemma clone_present:
  assumes "getitem2 d ''openshift'' ''ansible_tag'' = Inr tag"
    and "os_path_exists sys w ''openshift-ansible''"
  shows "clone sys a d w =
           run_checked sys (''git checkout tags/'' @ fmt sys tag) ''openshift-ansible'' (quiet a) w"
  using assms
  by (simp add: clone_def bind_apply split: prod.splits outcome.splits)

lemma clone_absent:
  assumes "getitem2 d ''openshift'' ''ansible_tag'' = Inr tag"
    and "\<not> os_path_exists sys w ''openshift-ansible''"
    and "io_run sys git_clone_cmd ''.'' (quiet a) w = (rvc, wc)"
  shows "clone sys a d w =
           (if rvc then
              (case run_checked sys (''git checkout tags/'' @ fmt sys tag) ''openshift-ansible''
                      (quiet a) wc
               of (r, es, w') \<Rightarrow> (r, Run git_clone_cmd ''.'' True # es, w'))
            else (Return False, [Run git_clone_cmd ''.'' False], wc))"
  using assms
  by (simp add: clone_def bind_apply run_checked_apply split: prod.splits outcome.splits)

lemma clone_shape:
  assumes "getitem2 d ''openshift'' ''ansible_tag'' = Inr tag"
    and "clone sys a d w = (r, es, w')"
  shows "(os_path_exists sys w ''openshift-ansible''
          \<and> (\<exists>rv. es = [Run (''git checkout tags/'' @ fmt sys tag) ''openshift-ansible'' rv]
                \<and> r = (if rv then Next () else Return False)))
       \<or> (\<not> os_path_exists sys w ''openshift-ansible''
          \<and> es = [Run git_clone_cmd ''.'' False] \<and> r = Return False)
       \<or> (\<not> os_path_exists sys w ''openshift-ansible''
          \<and> (\<exists>rv. es = [Run git_clone_cmd ''.'' True,
                         Run (''git checkout tags/'' @ fmt sys tag) ''openshift-ansible'' rv]
                \<and> r = (if rv then Next () else Return False)))"
proof (cases "os_path_exists sys w ''openshift-ansible''")
  case True
  from assms(2) [unfolded clone_present [OF assms(1) True]] show ?thesis
  proof (cases rule: run_checked_cases)
    case succeeded
    with True show ?thesis
      by (intro disjI1 conjI exI [where x = True]) simp_all
  next
    case failed
    with True show ?thesis
      by (intro disjI1 conjI exI [where x = False]) simp_all
  qed
next
  case False
  obtain rvc wc where c: "io_run sys git_clone_cmd ''.'' (quiet a) w = (rvc, wc)"
    by (cases "io_run sys git_clone_cmd ''.'' (quiet a) w")
  note eq = assms(2) [unfolded clone_absent [OF assms(1) False c]]
  show ?thesis
  proof (cases rvc)
    case failed: False
    with eq False show ?thesis
      by (intro disjI2 disjI1 conjI) simp_all
  next
    case cloned: True
    obtain r1 e1 w1 where k: "run_checked sys (''git checkout tags/'' @ fmt sys tag)
        ''openshift-ansible'' (quiet a) wc = (r1, e1, w1)"
      by (metis prod_cases3)
    from k show ?thesis
    proof (cases rule: run_checked_cases)
      case succeeded
      with eq cloned k False show ?thesis
        by (intro disjI2 conjI exI [where x = True]) simp_all
    next
      case failed
      with eq cloned k False show ?thesis
        by (intro disjI2 conjI exI [where x = False]) simp_all
    qed
  qed
qed

lemma later_stages_subset:
  assumes "getitem2 d ''openshift'' ''inventory_dir'' = Inr idir"
    and "bind (pre_openshift sys a d idir) (\<lambda>_.
         bind (openshift sys a d idir) (\<lambda>_.
         bind (post_openshift sys a) (\<lambda>_. ret True))) w = (r :: unit outcome, es, w')"
  shows "set (commands es) \<subseteq>
           set (if skip_pre_openshift a then [] else pre_openshift_commands sys d)
           \<union> set (if skip_openshift a then [] else openshift_commands sys d)
           \<union> set (if skip_post_openshift a then [] else post_openshift_commands)"
proof -
  let ?P = "if skip_pre_openshift a then [] else pre_openshift_commands sys d"
  let ?O = "if skip_openshift a then [] else openshift_commands sys d"
  let ?Q = "if skip_post_openshift a then [] else post_openshift_commands"
  have "completes False (bind (pre_openshift sys a d idir) (\<lambda>_.
         bind (openshift sys a d idir) (\<lambda>_.
         bind (post_openshift sys a) (\<lambda>_. (ret True :: (_, unit) prog))))) w (?P @ ?O @ ?Q @ [])
         ((if skip_pre_openshift a then [] else cert_fields d)
            @ (if skip_openshift a then [] else [getitem2 d ''openshift'' ''play'']) @ [] @ [])"
    by (intro completes_bind_stage pre_openshift_runs openshift_runs post_openshift_runs
        completes_ret_True assms(1))
  then have "prefix (commands es) (?P @ ?O @ ?Q @ [])"
    unfolding completes_def assms(2) prod.case by (rule conjunct1)
  then have "set (commands es) \<subseteq> set (?P @ ?O @ ?Q @ [])"
    by (rule set_mono_prefix)
  then show ?thesis
    by (simp only: set_append append_Nil2 Un_assoc)
qed

lemma later_stages_cwd:
  assumes "getitem2 d ''openshift'' ''inventory_dir'' = Inr idir"
    and "bind (pre_openshift sys a d idir) (\<lambda>_.
         bind (openshift sys a d idir) (\<lambda>_.
         bind (post_openshift sys a) (\<lambda>_. ret True))) w = (r :: unit outcome, es, w')"
    and "(cmd, cwd) \<in> set (commands es)"
  shows "cwd = ''ansible/pre-os'' \<or> cwd = ''openshift'' \<or> cwd = ''ansible/post-os''"
proof -
  from later_stages_subset [OF assms(1,2)] assms(3)
  have "(cmd, cwd) \<in> set (if skip_pre_openshift a then [] else pre_openshift_commands sys d)
           \<union> set (if skip_openshift a then [] else openshift_commands sys d)
           \<union> set (if skip_post_openshift a then [] else post_openshift_commands)"
    by (rule subsetD)
  then show ?thesis
    by (auto simp add: pre_openshift_commands_def openshift_commands_def post_openshift_commands_def
        split: if_splits)
qed

lemma main_install_after_clone:
  assumes "\<not> cluster a"
    and "before_mode sys a n w = (Next (d, idir, t_dir), es0, w0)"
    and "clone sys a d w0 = (rc, ec, wc)"
  shows "main sys a n w =
     (case rc of
        Next _ \<Rightarrow>
          (case bind (pre_openshift sys a d idir) (\<lambda>_.
                bind (openshift sys a d idir) (\<lambda>_.
                bind (post_openshift sys a) (\<lambda>_. ret True))) wc
           of (rr, er, wr) \<Rightarrow> (rr, es0 @ ec @ er, wr))
      | Return b \<Rightarrow> (Return b, es0 @ ec, wc)
      | Raise e \<Rightarrow> (Raise e, es0 @ ec, wc))"
  using assms
  by (simp add: main_def install_mode_def bind_apply split: outcome.splits prod.splits)

lemma later_stages_no_git:
  assumes "getitem2 d ''openshift'' ''inventory_dir'' = Inr idir"
    and "bind (pre_openshift sys a d idir) (\<lambda>_.
         bind (openshift sys a d idir) (\<lambda>_.
         bind (post_openshift sys a) (\<lambda>_. ret True))) w = (r :: unit outcome, es, w')"
  shows "(cmd, ''.'') \<notin> set (commands es)" and "Run cmd ''openshift-ansible'' rv \<notin> set es"
proof -
  show "(cmd, ''.'') \<notin> set (commands es)"
    using later_stages_cwd [OF assms, of cmd "''.''"] by auto
  show "Run cmd ''openshift-ansible'' rv \<notin> set es"
    using later_stages_cwd [OF assms, of cmd "''openshift-ansible''"]
      Run_in_commands [of cmd "''openshift-ansible''" rv es] by auto
qed

lemma install_run_shape:
  assumes mode: "\<not> cluster a"
    and reach: "before_mode sys a n w = (Next (d, idir, t_dir), es0, w0)"
    and tag: "getitem2 d ''openshift'' ''ansible_tag'' = Inr tag"
    and run1: "main sys a n w = (r, es, w')"
  obtains (present) rv er where "os_path_exists sys w0 ''openshift-ansible''"
      "es = es0 @ Run (''git checkout tags/'' @ fmt sys tag) ''openshift-ansible'' rv # er"
      "\<forall>c. (c, ''.'') \<notin> set (commands er)" "\<forall>c b. Run c ''openshift-ansible'' b \<notin> set er"
      "\<not> rv \<longrightarrow> er = [] \<and> r = Return False"
    | (clone_failed) "\<not> os_path_exists sys w0 ''openshift-ansible''"
      "es = es0 @ [Run git_clone_cmd ''.'' False]" "r = Return False"
    | (cloned) rv er where "\<not> os_path_exists sys w0 ''openshift-ansible''"
      "es = es0 @ Run git_clone_cmd ''.'' True
              # Run (''git checkout tags/'' @ fmt sys tag) ''openshift-ansible'' rv # er"
      "\<forall>c. (c, ''.'') \<notin> set (commands er)" "\<forall>c b. Run c ''openshift-ansible'' b \<notin> set er"
      "\<not> rv \<longrightarrow> er = [] \<and> r = Return False"
proof -
  from before_mode_Next [OF reach]
  have inv: "getitem2 d ''openshift'' ''inventory_dir'' = Inr idir"
    by simp
  obtain rc ec wc where c: "clone sys a d w0 = (rc, ec, wc)"
    by (metis prod_cases3)
  obtain rr er wr where l: "bind (pre_openshift sys a d idir) (\<lambda>_.
         bind (openshift sys a d idir) (\<lambda>_.
         bind (post_openshift sys a) (\<lambda>_. ret True))) wc = (rr :: unit outcome, er, wr)"
    by (metis prod_cases3)
  note later = later_stages_no_git [OF inv l]
  note m = run1 [unfolded main_install_after_clone [OF mode reach c]]
  from clone_shape [OF tag c] show thesis
  proof (elim disjE conjE exE)
    fix rv
    assume *: "os_path_exists sys w0 ''openshift-ansible''"
      "ec = [Run (''git checkout tags/'' @ fmt sys tag) ''openshift-ansible'' rv]"
      "rc = (if rv then Next () else Return False)"
    show thesis
    proof (cases rv)
      case True
      with * m l have "es = es0 @ Run (''git checkout tags/'' @ fmt sys tag) ''openshift-ansible'' rv # er"
        by simp
      with * True later show thesis
        by (intro present [of rv er]) simp_all
    next
      case False
      with * m have "es = es0 @ Run (''git checkout tags/'' @ fmt sys tag) ''openshift-ansible'' rv # []"
        "r = Return False"
        by simp_all
      with * False show thesis
        by (intro present [of rv "[]"]) simp_all
    qed
  next
    assume *: "\<not> os_path_exists sys w0 ''openshift-ansible''"
      "ec = [Run git_clone_cmd ''.'' False]" "rc = Return False"
    with m have "es = es0 @ [Run git_clone_cmd ''.'' False]" "r = Return False"
      by simp_all
    with * show thesis
      by (intro clone_failed)
  next
    fix rv
    assume *: "\<not> os_path_exists sys w0 ''openshift-ansible''"
      "ec = [Run git_clone_cmd ''.'' True,
             Run (''git checkout tags/'' @ fmt sys tag) ''openshift-ansible'' rv]"
      "rc = (if rv then Next () else Return False)"
    show thesis
    proof (cases rv)
      case True
      with * m l have "es = es0 @ Run git_clone_cmd ''.'' True
              # Run (''git checkout tags/'' @ fmt sys tag) ''openshift-ansible'' rv # er"
        by simp
      with * True later show thesis
        by (intro cloned [of rv er]) simp_all
    next
      case False
      with * m have "es = es0 @ Run git_clone_cmd ''.'' True
              # Run (''git checkout tags/'' @ fmt sys tag) ''openshift-ansible'' rv # []"
        "r = Return False"
        by simp_all
      with * False show thesis
        by (intro cloned [of rv "[]"]) simp_all
    qed
  qed
qed

subsection \<open>What a run with successful commands comes to\<close>

text \<open>
  How far a run gets when nothing but a lookup can stop it: every stage runs the commands
  in front of its first failing lookup and raises the error of that lookup, and passes
  control on when it has none.
\<close>

lemma all_succeeded_append [simp]:
  "all_succeeded (xs @ ys) \<longleftrightarrow> all_succeeded xs \<and> all_succeeded ys"
  by (induction xs rule: all_succeeded.induct) simp_all





lemma lookups_of_append [simp]: "lookups_of (S @ T) = lookups_of S @ lookups_of T"
  by (induction S rule: lookups_of.induct) simp_all

lemma commands_of_append [simp]: "commands_of (S @ T) = commands_of S @ commands_of T"
  by (induction S rule: commands_of.induct) simp_all

lemma lookups_of_Lookup [simp]: "lookups_of (map Lookup F) = F"
  by (induction F) simp_all

lemma lookups_of_Command [simp]: "lookups_of (map Command X) = []"
  by (induction X) simp_all

lemma commands_of_Lookup [simp]: "commands_of (map Lookup F) = []"
  by (induction F) simp_all

lemma commands_of_Command [simp]: "commands_of (map Command X) = X"
  by (induction X) simp_all

lemma reached_Command [simp]: "reached (map Command X) = X"
  by (induction X) simp_all

lemma failure_Command [simp]: "failure (map Command X) = None"
  by (induction X) simp_all


lemma reached_all: "failure S = None \<Longrightarrow> reached S = commands_of S"
  by (induction S rule: reached.induct) simp_all





lemma follows_weaken:
  assumes "follows N S m w" and "N' \<Longrightarrow> N"
  shows "follows N' S m w"
  using assms by (auto simp add: follows_def split: prod.splits)






























section \<open>The inventory directory is checked before anything runs\<close>

text \<open>
  Claim C7. The first thing \<open>_main\<close> does with a loaded configuration is to look for the
  directory \<open>openshift/inventories/<inventory_dir>\<close>. When it is not there the run
  returns \<open>False\<close>, the messages name the inventory directory that was expected, and
  the log holds no external command at all; the world is left as it was.
\<close>

theorem missing_inventory_stops_run:
  assumes "os_path_exists sys w (''deployments/'' @ n @ ''.yaml'')"
    and "yaml_load sys w (''deployments/'' @ n @ ''.yaml'') = Inr d"
    and "getitem2 d ''openshift'' ''inventory_dir'' = Inr idir"
    and "\<not> os_path_isdir sys w (''openshift/inventories/'' @ fmt sys idir)"
  shows "main sys a n w =
           (Return False,
            [Error (''Missing '' @ dq @ ''openshift/inventories'' @ dq @ '' directory''),
             Print (''Expected to find the inventory directory '' @ dq @ fmt sys idir @ dq
                    @ '' but it was not there.''),
             Print (''Every deployment must have an '' @ dq @ ''inventories'' @ dq @ '' directory'')],
            w)
         \<and> commands (fst (snd (main sys a n w))) = []"
proof -
  have "load_deployment sys n w =
           (Return False,
            [Error (''Missing '' @ dq @ ''openshift/inventories'' @ dq @ '' directory''),
             Print (''Expected to find the inventory directory '' @ dq @ fmt sys idir @ dq
                    @ '' but it was not there.''),
             Print (''Every deployment must have an '' @ dq @ ''inventories'' @ dq @ '' directory'')],
            w)"
    using assms by (simp add: load_deployment_def bind_apply Let_def)
  then show ?thesis
    by (simp add: main_def before_mode_def bind_apply)
qed

theorem missing_inventory_stops_run_witness:
  "main (demo_sys [] [] demo_config []) demo_args ''demo'' [''deployments/demo.yaml''] =
     (Return False,
      [Error (''Missing '' @ dq @ ''openshift/inventories'' @ dq @ '' directory''),
       Print (''Expected to find the inventory directory '' @ dq @ ''inv'' @ dq
              @ '' but it was not there.''),
       Print (''Every deployment must have an '' @ dq @ ''inventories'' @ dq @ '' directory'')],
      [''deployments/demo.yaml''])
   \<and> commands (fst (snd (main (demo_sys [] [] demo_config []) demo_args ''demo''
                                [''deployments/demo.yaml'']))) = []"
  using missing_inventory_stops_run [of "demo_sys [] [] demo_config []" "[''deployments/demo.yaml'']"
      "''demo''" demo_config "YStr ''inv''" demo_args]
  by (simp add: demo_sys_def demo_config_def getitem2_def fmt_def)


section \<open>A declined confirmation\<close>

text \<open>
  Claim C3. When \<open>--auto-acknowledge\<close> is not given and the operator's answer differs
  from the confirmation word (the empty answer included), \<open>_main\<close> returns \<open>True\<close>
  without a single call of \<open>io.run\<close>, and the script, having got that far, ends with
  status 0. The first hypothesis says that the question is reached: the configuration
  was loaded and its inventory directory found.
\<close>

theorem declined_confirmation_is_success:
  assumes "load_deployment sys n w = (Next (d, idir), es0, w0)"
    and "getitem d ''name'' = Inr nm"
    and "\<not> auto_acknowledge a"
    and "input sys (confirmation_prompt a (io_get_confirmation_word sys w)) w = Some response"
    and "response \<noteq> io_get_confirmation_word sys w"
  shows "main sys a n w =
           (Return True,
            [Banner nm, Prompt (confirmation_prompt a (io_get_confirmation_word sys w)),
             Print ''Phew! That was close!''], w)
       \<and> commands (fst (snd (main sys a n w))) = []
       \<and> ((cluster a \<or> okd a) \<and> glob_glob sys w ''deployments/*.yaml'' = first # others
            \<and> \<not> display_deployments a \<and> select_deployment a first others = Inr n
          \<longrightarrow> script sys a w =
                (Exit 0,
                 [Banner nm, Prompt (confirmation_prompt a (io_get_confirmation_word sys w)),
                  Print ''Phew! That was close!''], w)
              \<and> exit_code (fst (script sys a w)) = 0)"
proof -
  note l = load_deployment_Next [OF assms(1)]
  have m: "main sys a n w =
           (Return True,
            [Banner nm, Prompt (confirmation_prompt a (io_get_confirmation_word sys w)),
             Print ''Phew! That was close!''], w)"
    using assms(1) l hello_declined [OF assms(2-5)]
    by (simp add: main_def before_mode_def bind_apply)
  have "os_path_exists sys w (''deployments/'' @ n @ ''.yaml'')"
    using l by simp
  then show ?thesis
    using m by (simp add: script_def)
qed

theorem declined_confirmation_is_success_witness:
  "main (demo_sys [] [] demo_config []) (demo_args\<lparr>auto_acknowledge := False\<rparr>) ''demo'' demo_world =
     (Return True,
      [Banner (YStr ''demo''),
       Prompt (''Enter '' @ dq @ ''tiger'' @ dq @ '' to INSTALL OpenShift: ''),
       Print ''Phew! That was close!''],
      demo_world)
   \<and> script (demo_sys [] [] demo_config []) (demo_args\<lparr>auto_acknowledge := False\<rparr>) demo_world =
     (Exit 0,
      [Banner (YStr ''demo''),
       Prompt (''Enter '' @ dq @ ''tiger'' @ dq @ '' to INSTALL OpenShift: ''),
       Print ''Phew! That was close!''],
      demo_world)"
proof -
  let ?S = "demo_sys [] [] demo_config []"
  let ?A = "demo_args\<lparr>auto_acknowledge := False\<rparr>"
  have l: "load_deployment ?S ''demo'' demo_world = (Next (demo_config, YStr ''inv''), [], demo_world)"
    by (simp add: stage_defs demo_defs bind_apply)
  have nm: "getitem demo_config ''name'' = Inr (YStr ''demo'')"
    by (simp add: demo_config_def)
  have a: "\<not> auto_acknowledge ?A"
    by simp
  have i: "input ?S (confirmation_prompt ?A (io_get_confirmation_word ?S demo_world)) demo_world = Some []"
    by (simp add: demo_sys_def)
  have ne: "[] \<noteq> io_get_confirmation_word ?S demo_world"
    by (simp add: demo_sys_def)
  from declined_confirmation_is_success [OF l nm a i ne,
      where first = "''deployments/demo.yaml''" and others = "[]"]
  show ?thesis
    by (simp add: demo_defs confirmation_prompt_def select_deployment_def stem_def basename_def)
qed

section \<open>The two pip commands\<close>

text \<open>
  Claim C10. In either mode and whatever the skip flags, once the configuration is
  loaded, the confirmation passed and rendering done (or skipped), the next command is
  \<open>pip install --upgrade pip\<close>; when it succeeds the one after it installs the ansible
  version of the configuration. Up to there the log holds no command but the rendering.
  If either pip command fails it is the last event of the run, which returns \<open>False\<close>.
\<close>

theorem pip_commands_follow_rendering:
  assumes "load_deployment sys n w = (Next (d, idir), es0, w0)"
    and "hello sys a d w0 = (Next (), es1, w1)"
    and "render sys a n w1 = (Next (), es2, w2)"
    and "getitem2 d ''ansible'' ''version'' = Inr v"
    and "main sys a n w = (r, es, w')"
  shows "commands (es0 @ es1 @ es2) = (if skip_rendering a then [] else [(''./render.py '' @ n, ''.'')])
       \<and> (\<exists>rv1 rest. es = es0 @ es1 @ es2 @ Run ''pip install --upgrade pip'' ''.'' rv1 # rest
            \<and> (if rv1 then
                  (\<exists>rv2 rest'. rest = Run (''pip install ansible=='' @ fmt sys v) ''.'' rv2 # rest'
                      \<and> (\<not> rv2 \<longrightarrow> rest' = [] \<and> r = Return False))
                else rest = [] \<and> r = Return False))"
proof -
  have before: "commands (es0 @ es1 @ es2) = (if skip_rendering a then [] else [(''./render.py '' @ n, ''.'')])"
    using load_deployment_Next [OF assms(1)] hello_Next [OF assms(2)] render_Next [OF assms(3)]
    by simp
  obtain r3 es3 w3 where pip: "install_ansible sys a d w2 = (r3, es3, w3)"
    by (metis prod_cases3)
  note shape = install_ansible_cases [OF assms(4) pip]
  have run: "main sys a n w =
      (case bind (install_ansible sys a d) (\<lambda>_.
               bind (lift (getitem2 d ''terraform'' ''dir'')) (\<lambda>t_dir.
               if cluster a then cluster_mode sys a n d idir t_dir
               else install_mode sys a d idir)) w2
       of (r, es', w') \<Rightarrow> (r, es0 @ es1 @ es2 @ es', w'))"
    using assms(1,2,3)
    by (simp add: main_def before_mode_def bind_apply split: prod.splits outcome.splits sum.splits)
  show ?thesis
    using shape
  proof (elim disjE conjE)
    assume "r3 = Return False" "es3 = [Run ''pip install --upgrade pip'' ''.'' False]"
    then show ?thesis
      using before run pip assms(5) by (auto simp add: bind_apply)
  next
    assume "r3 = Return False" "es3 = [Run ''pip install --upgrade pip'' ''.'' True,
                                     Run (''pip install ansible=='' @ fmt sys v) ''.'' False]"
    then show ?thesis
      using before run pip assms(5) by (auto simp add: bind_apply)
  next
    assume "r3 = Next ()" "es3 = [Run ''pip install --upgrade pip'' ''.'' True,
                                Run (''pip install ansible=='' @ fmt sys v) ''.'' True]"
    then show ?thesis
      using before run pip assms(5)
      by (auto simp add: bind_apply split: prod.splits outcome.splits)
  qed
qed

theorem pip_commands_follow_rendering_witness:
  "main (demo_sys [''pip install ansible==2.7''] [] demo_config []) demo_args ''demo'' demo_world =
     (Return False,
      [Banner (YStr ''demo''), Run ''./render.py demo'' ''.'' True,
       Run ''pip install --upgrade pip'' ''.'' True, Run ''pip install ansible==2.7'' ''.'' False],
      demo_world)"
proof -
  let ?S = "demo_sys [''pip install ansible==2.7''] [] demo_config []"
  have l: "load_deployment ?S ''demo'' demo_world = (Next (demo_config, YStr ''inv''), [], demo_world)"
    by (simp add: stage_defs demo_defs bind_apply)
  have h: "hello ?S demo_args demo_config demo_world = (Next (), [Banner (YStr ''demo'')], demo_world)"
    by (simp add: stage_defs demo_defs bind_apply)
  have r: "render ?S demo_args ''demo'' demo_world
             = (Next (), [Run ''./render.py demo'' ''.'' True], demo_world)"
    by (simp add: stage_defs demo_defs run_checked_apply)
  have v: "getitem2 demo_config ''ansible'' ''version'' = Inr (YStr ''2.7'')"
    by (simp add: getitem2_def demo_config_def)
  obtain res es w' where m: "main ?S demo_args ''demo'' demo_world = (res, es, w')"
    by (metis prod_cases3)
  from pip_commands_follow_rendering [OF l h r v m]
  have "es = [Banner (YStr ''demo''), Run ''./render.py demo'' ''.'' True,
       Run ''pip install --upgrade pip'' ''.'' True, Run ''pip install ansible==2.7'' ''.'' False]
       \<and> res = Return False"
    using m by (auto simp add: stage_defs demo_defs bind_apply run_checked_apply split: if_splits)
  moreover have "w' = demo_world"
    using m by (simp add: stage_defs demo_defs bind_apply run_checked_apply)
  ultimately show ?thesis
    using m by simp
qed

section \<open>The plays of install mode\<close>

text \<open>
  Claim C1. In install mode, when the OpenShift stage is not skipped and the run gets
  to it, the plays of the configuration are handed to \<open>io.run\<close> one by one in list
  order. The log of the run is the log up to that stage, then \<open>k\<close> successful plays (the
  first \<open>k\<close> of the list), then either the failed play number \<open>k\<close> and nothing more, the
  run returning \<open>False\<close>, or, when all plays succeeded, what the post-OpenShift stage
  logs. No command follows a failed play: none of the later plays, and nothing that
  would undo the earlier ones.
\<close>

theorem plays_stop_at_first_failure:
  assumes "\<not> cluster a" and "\<not> skip_openshift a"
    and "before_mode sys a n w = (Next (d, idir, t_dir), es0, w0)"
    and "clone sys a d w0 = (Next (), es1, w1)"
    and "pre_openshift sys a d idir w1 = (Next (), es2, w2)"
    and "getitem2 d ''openshift'' ''play'' = Inr play_list"
    and "py_iter play_list = Inr plays"
    and "main sys a n w = (r, es, w')"
  shows "\<exists>k rest. k \<le> length plays
          \<and> es = es0 @ es1 @ es2
                 @ map (\<lambda>p. Run (play_cmd sys p idir) ''openshift'' True) (take k plays) @ rest
          \<and> (if k < length plays then
                rest = [Run (play_cmd sys (plays ! k) idir) ''openshift'' False] \<and> r = Return False
              else
                rest = [] \<or> (\<exists>rv. rest = [Run ''ansible-playbook site.yaml'' ''ansible/post-os'' rv]))"
proof -
  obtain r3 es3 w3 where loop: "openshift_plays sys (quiet a) idir plays w2 = (r3, es3, w3)"
    by (metis prod_cases3)
  from openshift_plays_shape [OF loop] obtain k where k: "k \<le> length plays"
      "es3 = map (\<lambda>p. Run (play_cmd sys p idir) ''openshift'' True) (take k plays)
                @ (if k < length plays then [Run (play_cmd sys (plays ! k) idir) ''openshift'' False]
                   else [])"
      "r3 = (if k < length plays then Return False else Next ())"
    by blast
  obtain r4 es4 w4 where post: "post_openshift sys a w3 = (r4, es4, w4)"
    by (metis prod_cases3)
  note shape = post_openshift_shape [OF post]
  have stage: "openshift sys a d idir w2 = (r3, es3, w3)"
    using assms(2,6,7) loop by (simp add: openshift_def bind_apply)
  have run: "main sys a n w =
      (case r3 of
         Next _ \<Rightarrow> (case r4 of Next _ \<Rightarrow> (Return True, es0 @ es1 @ es2 @ es3 @ es4, w4)
                    | Return b \<Rightarrow> (Return b, es0 @ es1 @ es2 @ es3 @ es4, w4)
                    | Raise e \<Rightarrow> (Raise e, es0 @ es1 @ es2 @ es3 @ es4, w4))
       | Return b \<Rightarrow> (Return b, es0 @ es1 @ es2 @ es3, w3)
       | Raise e \<Rightarrow> (Raise e, es0 @ es1 @ es2 @ es3, w3))"
    using assms(1,3,4,5) stage post
    by (simp add: main_def install_mode_def bind_apply split: outcome.splits)
  show ?thesis
  proof (cases "k < length plays")
    case True
    then show ?thesis
      using k run assms(8)
      by (intro exI [where x = k]) auto
  next
    case False
    then show ?thesis
      using k run assms(8) shape
      by (intro exI [where x = k] exI [where x = es4]) (auto split: outcome.splits)
  qed
qed

theorem plays_stop_at_first_failure_witness:
  "main (demo_sys [''ansible-playbook ../openshift-ansible/playbooks/B -i inventories/inv/inventory'']
           [] demo_config []) demo_args ''demo'' demo_world =
     (Return False,
      [Banner (YStr ''demo''), Run ''./render.py demo'' ''.'' True,
       Run ''pip install --upgrade pip'' ''.'' True, Run ''pip install ansible==2.7'' ''.'' True,
       Run git_clone_cmd ''.'' True, Run ''git checkout tags/v1'' ''openshift-ansible'' True,
       Run ''ansible-playbook site.yaml  -i ../../openshift/inventories/inv/inventory''
         ''ansible/pre-os'' True,
       Run ''ansible-playbook ../openshift-ansible/playbooks/A -i inventories/inv/inventory''
         ''openshift'' True,
       Run ''ansible-playbook ../openshift-ansible/playbooks/B -i inventories/inv/inventory''
         ''openshift'' False],
      ''openshift-ansible'' # demo_world)"
proof -
  let ?S = "demo_sys [''ansible-playbook ../openshift-ansible/playbooks/B -i inventories/inv/inventory'']
           [] demo_config []"
  let ?es0 = "[Banner (YStr ''demo''), Run ''./render.py demo'' ''.'' True,
       Run ''pip install --upgrade pip'' ''.'' True, Run ''pip install ansible==2.7'' ''.'' True]"
  let ?es1 = "[Run git_clone_cmd ''.'' True, Run ''git checkout tags/v1'' ''openshift-ansible'' True]"
  let ?es2 = "[Run ''ansible-playbook site.yaml  -i ../../openshift/inventories/inv/inventory''
         ''ansible/pre-os'' True]"
  have mode: "\<not> cluster demo_args" "\<not> skip_openshift demo_args"
    by (simp_all add: demo_args_def)
  have b: "before_mode ?S demo_args ''demo'' demo_world
             = (Next (demo_config, YStr ''inv'', YStr ''t''), ?es0, demo_world)"
    by (simp add: stage_defs demo_defs bind_apply run_checked_apply)
  have c: "clone ?S demo_args demo_config demo_world = (Next (), ?es1, ''openshift-ansible'' # demo_world)"
    by (simp add: stage_defs demo_defs bind_apply run_checked_apply)
  have p: "pre_openshift ?S demo_args demo_config (YStr ''inv'') (''openshift-ansible'' # demo_world)
             = (Next (), ?es2, ''openshift-ansible'' # demo_world)"
    by (simp add: stage_defs demo_defs bind_apply run_checked_apply)
  have pl: "getitem2 demo_config ''openshift'' ''play'' = Inr (YList [YStr ''A'', YStr ''B'', YStr ''C''])"
    by (simp add: getitem2_def demo_config_def)
  have it: "py_iter (YList [YStr ''A'', YStr ''B'', YStr ''C'']) = Inr [YStr ''A'', YStr ''B'', YStr ''C'']"
    by simp
  have ev: "main ?S demo_args ''demo'' demo_world =
     (Return False, ?es0 @ ?es1 @ ?es2 @
       [Run ''ansible-playbook ../openshift-ansible/playbooks/A -i inventories/inv/inventory''
         ''openshift'' True,
       Run ''ansible-playbook ../openshift-ansible/playbooks/B -i inventories/inv/inventory''
         ''openshift'' False],
      ''openshift-ansible'' # demo_world)"
    by (simp add: stage_defs demo_defs bind_apply run_checked_apply)
  note stops = plays_stop_at_first_failure [OF mode b c p pl it ev]
  from stops ev show ?thesis
    by simp
qed


section \<open>Choosing the mode\<close>

text \<open>
  Claim C9, as amended. The script refuses an invocation that selects neither
  \<open>--cluster\<close> nor \<open>--okd\<close>: it prints the usage message and exits with status 1
  before it looks for a deployment, and nothing runs. It does not refuse both flags at
  once: with \<open>--cluster\<close> given, \<open>--okd\<close> makes no difference, and the run is the
  cluster-mode run.
\<close>

theorem mode_flag_required:
  "(\<not> cluster ARGS \<and> \<not> okd ARGS \<longrightarrow>
      script sys ARGS w = (Exit 1, [Print ''Must specify --cluster or --okd''], w))
   \<and> (cluster ARGS \<longrightarrow> script sys ARGS w = script sys (ARGS\<lparr>okd := False\<rparr>) w)"
  by (simp add: script_def select_deployment_ignores_okd main_ignores_okd Let_def
      split: list.splits sum.splits)

theorem mode_flag_required_witness:
  "script (demo_sys [] [] demo_config []) (demo_args\<lparr>okd := False\<rparr>) demo_world
     = (Exit 1, [Print ''Must specify --cluster or --okd''], demo_world)
   \<and> script (demo_sys [] [] demo_config []) (demo_args\<lparr>cluster := True\<rparr>) demo_world
     = script (demo_sys [] [] demo_config []) (demo_args\<lparr>cluster := True, okd := False\<rparr>) demo_world"
  using mode_flag_required [of "demo_args\<lparr>okd := False\<rparr>" "demo_sys [] [] demo_config []" demo_world]
    mode_flag_required [of "demo_args\<lparr>cluster := True\<rparr>" "demo_sys [] [] demo_config []" demo_world]
  by (simp add: demo_args_def)

text \<open>Claim C9 as stated fails: with both flags the script goes ahead, creates the
  cluster and exits with status 0.\<close>

theorem both_modes_accepted:
  "script (demo_sys [] [(''TF_VAR_keypair_name'', ''k'')] demo_config [])
     (demo_args\<lparr>cluster := True, okd := True\<rparr>) demo_world =
   (Exit 0,
    [Banner (YStr ''demo''), Run ''./render.py demo'' ''.'' True,
     Run ''pip install --upgrade pip'' ''.'' True,
     Run ''pip install ansible==2.7'' ''.'' True,
     Run ''terraform init'' ''terraform/t'' True,
     Run ''terraform apply -auto-approve -state=.terraform.demo'' ''terraform/t'' True,
     Run ''ansible-playbook site.yaml  -e keypair_name=k -e deployment=inv'' ''ansible/bastion'' True,
     Run ''terraform output -state=.terraform.demo'' ''terraform/t'' True],
    demo_world)"
  by (simp add: script_def select_deployment_def stem_def basename_def stage_defs demo_defs
      bind_apply run_checked_apply)

section \<open>The environment variables of the bastion stage\<close>

text \<open>
  Claim C5, as amended. In cluster mode's pre-OpenShift stage the variable
  \<open>TF_VAR_master_certbot_email\<close> is read only when \<open>generate_cert\<close> is set, but
  \<open>TF_VAR_keypair_name\<close> is read on every run of the stage, whatever \<open>generate_cert\<close>
  says. When a variable the stage reads is absent the stage raises \<open>KeyError\<close> with the
  name of the variable, before its command is run. With \<open>generate_cert\<close> false and the
  key pair name present the stage runs its command without looking at the e-mail
  variable. Outside that stage (install mode, or the stage skipped) the environment is
  never read: replacing it changes nothing.
\<close>

theorem keypair_always_needed:
  assumes "\<not> skip_pre_openshift a"
    and "getitem3 d ''cluster'' ''master'' ''generate_cert'' = Inr g"
  shows "(truthy g \<and> os_environ sys ''TF_VAR_master_certbot_email'' = None \<longrightarrow>
            bastion sys a d idir w = (Raise (KeyError ''TF_VAR_master_certbot_email''), [], w))
       \<and> (\<not> truthy g \<and> os_environ sys ''TF_VAR_keypair_name'' = None \<longrightarrow>
            bastion sys a d idir w = (Raise (KeyError ''TF_VAR_keypair_name''), [], w))
       \<and> (truthy g \<and> os_environ sys ''TF_VAR_master_certbot_email'' = Some email
            \<and> getitem2 d ''cluster'' ''public_hostname'' = Inr h
            \<and> os_environ sys ''TF_VAR_keypair_name'' = None \<longrightarrow>
            bastion sys a d idir w = (Raise (KeyError ''TF_VAR_keypair_name''), [], w))
       \<and> (\<not> truthy g \<and> os_environ sys ''TF_VAR_keypair_name'' = Some k \<longrightarrow>
            bastion sys a d idir w =
              run_checked sys (''ansible-playbook site.yaml '' @ '' -e keypair_name='' @ k
                               @ '' -e deployment='' @ fmt sys idir) ''ansible/bastion'' (quiet a) w)
       \<and> ((\<not> cluster a' \<or> skip_pre_openshift a') \<longrightarrow>
            main (sys\<lparr>os_environ := e\<rparr>) a' n w = main sys a' n w)"
  using assms
  by (simp add: bastion_def bind_apply environ_def main_environ)

theorem keypair_always_needed_witness:
  "bastion (demo_sys [] [] demo_config []) (demo_args\<lparr>cluster := True\<rparr>) demo_config (YStr ''inv'')
      demo_world = (Raise (KeyError ''TF_VAR_keypair_name''), [], demo_world)
   \<and> main ((demo_sys [] [] demo_config [])\<lparr>os_environ := map_of [(''TF_VAR_keypair_name'', ''k'')]\<rparr>)
        demo_args ''demo'' demo_world
       = main (demo_sys [] [] demo_config []) demo_args ''demo'' demo_world"
proof -
  have s: "\<not> skip_pre_openshift (demo_args\<lparr>cluster := True\<rparr>)"
    by (simp add: demo_args_def)
  have g: "getitem3 demo_config ''cluster'' ''master'' ''generate_cert'' = Inr (YBool False)"
    by (simp add: getitem3_def getitem2_def demo_config_def)
  have k: "os_environ (demo_sys [] [] demo_config []) ''TF_VAR_keypair_name'' = None"
    by (simp add: demo_sys_def)
  have m: "\<not> cluster demo_args"
    by (simp add: demo_args_def)
  note needed = keypair_always_needed [OF s g, where sys = "demo_sys [] [] demo_config []"
      and idir = "YStr ''inv''" and w = demo_world and a' = demo_args
      and e = "map_of [(''TF_VAR_keypair_name'', ''k'')]" and n = "''demo''"]
  from needed k have "bastion (demo_sys [] [] demo_config []) (demo_args\<lparr>cluster := True\<rparr>)
      demo_config (YStr ''inv'') demo_world = (Raise (KeyError ''TF_VAR_keypair_name''), [], demo_world)"
    by simp
  moreover from needed m have
    "main ((demo_sys [] [] demo_config [])\<lparr>os_environ := map_of [(''TF_VAR_keypair_name'', ''k'')]\<rparr>)
        demo_args ''demo'' demo_world
       = main (demo_sys [] [] demo_config []) demo_args ''demo'' demo_world"
    by blast
  ultimately show ?thesis
    by blast
qed

text \<open>Claim C5 as stated fails: \<open>generate_cert\<close> is false, and the stage still raises
  for the key pair name.\<close>

theorem keypair_needed_without_certificate:
  "getitem3 demo_config ''cluster'' ''master'' ''generate_cert'' = Inr (YBool False)
   \<and> main (demo_sys [] [] demo_config []) (demo_args\<lparr>cluster := True\<rparr>) ''demo'' demo_world =
     (Raise (KeyError ''TF_VAR_keypair_name''),
      [Banner (YStr ''demo''), Run ''./render.py demo'' ''.'' True,
       Run ''pip install --upgrade pip'' ''.'' True,
       Run ''pip install ansible==2.7'' ''.'' True,
       Run ''terraform init'' ''terraform/t'' True,
       Run ''terraform apply -auto-approve -state=.terraform.demo'' ''terraform/t'' True],
      demo_world)"
  by (simp add: stage_defs demo_defs bind_apply run_checked_apply)


section \<open>Skip flags and the commands of a run\<close>




section \<open>Missing fields of the configuration\<close>




section \<open>The terraform state file\<close>

text \<open>
  Claim C8, as amended. Every \<open>terraform apply\<close> and \<open>terraform output\<close> command of a
  run for the deployment \<open>n\<close> carries \<open>-state=\<close> followed by \<open>state_file n\<close>, which is
  \<open>.terraform.\<close> followed by the name of the deployment; two deployments have the same
  state file only if they have the same name.
\<close>

theorem state_file_keyed_by_deployment:
  assumes "main sys a n w = (r, es, w')"
    and "(cmd, cwd) \<in> set (commands es)"
  shows "(prefix ''terraform apply'' cmd \<longrightarrow> cmd = ''terraform apply -auto-approve -state='' @ state_file n)
       \<and> (prefix ''terraform output'' cmd \<longrightarrow> cmd = ''terraform output -state='' @ state_file n)
       \<and> state_file n = ''.terraform.'' @ n
       \<and> (state_file n = state_file n' \<longleftrightarrow> n = n')"
proof -
  from assms(2) have "commands es \<noteq> []"
    by auto
  from main_loaded [OF assms(1) this] obtain d
    where "yaml_load sys w (''deployments/'' @ n @ ''.yaml'') = Inr d" ..
  from main_completes [OF this, of a] assms(1) obtain c
    where "prefix (commands es) (unskipped_commands sys a n d c)"
    by (auto simp add: completes_def)
  with assms(2) have "(cmd, cwd) \<in> set (unskipped_commands sys a n d c)"
    using set_mono_prefix by blast
  from unskipped_commands_state_file [OF this] show ?thesis
    by (simp add: state_file_def)
qed

theorem state_file_keyed_by_deployment_witness:
  "''terraform apply -auto-approve -state=.terraform.demo''
     = ''terraform apply -auto-approve -state='' @ state_file ''demo''
   \<and> state_file ''demo'' = ''.terraform.'' @ ''demo''
   \<and> state_file ''demo'' \<noteq> state_file ''other''"
proof -
  let ?S = "demo_sys [] [(''TF_VAR_keypair_name'', ''k'')] demo_config []"
  let ?es = "[Banner (YStr ''demo''), Run ''./render.py demo'' ''.'' True,
     Run ''pip install --upgrade pip'' ''.'' True,
     Run ''pip install ansible==2.7'' ''.'' True,
     Run ''terraform init'' ''terraform/t'' True,
     Run ''terraform apply -auto-approve -state=.terraform.demo'' ''terraform/t'' True,
     Run ''ansible-playbook site.yaml  -e keypair_name=k -e deployment=inv'' ''ansible/bastion'' True,
     Run ''terraform output -state=.terraform.demo'' ''terraform/t'' True]"
  have m: "main ?S (demo_args\<lparr>cluster := True\<rparr>) ''demo'' demo_world = (Return True, ?es, demo_world)"
    by (simp add: stage_defs demo_defs bind_apply run_checked_apply)
  have i: "(''terraform apply -auto-approve -state=.terraform.demo'', ''terraform/t'')
             \<in> set (commands ?es)"
    by simp
  have p: "prefix ''terraform apply'' ''terraform apply -auto-approve -state=.terraform.demo''"
    by simp
  have ne: "''demo'' \<noteq> ''other''"
    by simp
  from state_file_keyed_by_deployment [OF m i, of "''other''"] p ne show ?thesis
    by blast
qed

text \<open>Claim C8 as stated fails: the commands do not mention the file
  \<open>.state.<deployment-name>\<close> of the specification.\<close>

theorem state_file_is_not_the_specified_one:
  "main (demo_sys [] [(''TF_VAR_keypair_name'', ''k'')] demo_config [])
      (demo_args\<lparr>cluster := True\<rparr>) ''demo'' demo_world =
     (Return True,
      [Banner (YStr ''demo''), Run ''./render.py demo'' ''.'' True,
       Run ''pip install --upgrade pip'' ''.'' True,
       Run ''pip install ansible==2.7'' ''.'' True,
       Run ''terraform init'' ''terraform/t'' True,
       Run ''terraform apply -auto-approve -state=.terraform.demo'' ''terraform/t'' True,
       Run ''ansible-playbook site.yaml  -e keypair_name=k -e deployment=inv'' ''ansible/bastion'' True,
       Run ''terraform output -state=.terraform.demo'' ''terraform/t'' True],
      demo_world)
   \<and> spec_state_file ''demo'' = ''.state.demo''
   \<and> \<not> sublist (spec_state_file ''demo'') ''terraform apply -auto-approve -state=.terraform.demo''
   \<and> \<not> sublist (spec_state_file ''demo'') ''terraform output -state=.terraform.demo''"
  by (simp add: stage_defs demo_defs bind_apply run_checked_apply spec_state_file_def sublist_code)


section \<open>Cloning and checking out OpenShift Ansible\<close>

text \<open>
  Claim C4. Take an install-mode run that gets to the checkout stage, with the tag
  present in the configuration; \<open>es1\<close> is what the run logs from that stage on. It
  holds \<open>git clone\<close> once if the directory \<open>openshift-ansible\<close> was absent when the stage
  started and not at all if it was there. Unless that clone failed, the tag checkout
  is run. A failed tag checkout is the last event of the run, and the run returns
  \<open>False\<close>. When the stage is invoked again in a world where the directory exists (the
  last two hypotheses), it runs the tag checkout and nothing else, and returns \<open>False\<close>
  if the checkout fails although the repository was there; over both invocations
  \<open>git clone\<close> has run at most once.
\<close>

theorem checkout_stage_clones_once:
  assumes mode: "\<not> cluster a"
    and reach: "before_mode sys a n w = (Next (d, idir, t_dir), es0, w0)"
    and tag: "getitem2 d ''openshift'' ''ansible_tag'' = Inr tag"
    and run1: "main sys a n w = (r, es, w')"
    and again: "clone sys a d w2 = (r2, es2, w2')"
    and present: "os_path_exists sys w2 ''openshift-ansible''"
  shows "\<exists>es1. es = es0 @ es1
      \<and> count_list (commands es1) (git_clone_cmd, ''.'')
          = (if os_path_exists sys w0 ''openshift-ansible'' then 0 else 1)
      \<and> (Run git_clone_cmd ''.'' False \<notin> set es1 \<longrightarrow>
           (\<exists>rv. Run (''git checkout tags/'' @ fmt sys tag) ''openshift-ansible'' rv \<in> set es1))
      \<and> (Run (''git checkout tags/'' @ fmt sys tag) ''openshift-ansible'' False \<in> set es1 \<longrightarrow>
           r = Return False
           \<and> last es1 = Run (''git checkout tags/'' @ fmt sys tag) ''openshift-ansible'' False)
      \<and> (\<exists>rv. es2 = [Run (''git checkout tags/'' @ fmt sys tag) ''openshift-ansible'' rv]
             \<and> r2 = (if rv then Next () else Return False))
      \<and> count_list (commands (es1 @ es2)) (git_clone_cmd, ''.'') \<le> 1"
proof -
  let ?co = "''git checkout tags/'' @ fmt sys tag"
  from clone_shape [OF tag again] present
  obtain rv2 where second: "es2 = [Run ?co ''openshift-ansible'' rv2]"
      "r2 = (if rv2 then Next () else Return False)"
    by blast
  have dirs: "''openshift-ansible'' \<noteq> ''.''"
    by simp
  then have second_count: "count_list (commands es2) (git_clone_cmd, ''.'') = 0"
    using second by simp
  have first: "\<exists>es1. es = es0 @ es1
      \<and> count_list (commands es1) (git_clone_cmd, ''.'')
          = (if os_path_exists sys w0 ''openshift-ansible'' then 0 else 1)
      \<and> (Run git_clone_cmd ''.'' False \<notin> set es1 \<longrightarrow>
           (\<exists>rv. Run ?co ''openshift-ansible'' rv \<in> set es1))
      \<and> (Run ?co ''openshift-ansible'' False \<in> set es1 \<longrightarrow>
           r = Return False \<and> last es1 = Run ?co ''openshift-ansible'' False)"
    using mode reach tag run1
  proof (cases rule: install_run_shape)
    case (present rv er)
    have "count_list (commands (Run ?co ''openshift-ansible'' rv # er)) (git_clone_cmd, ''.'') = 0"
      using present(3) dirs by simp
    moreover have "Run ?co ''openshift-ansible'' False \<in> set (Run ?co ''openshift-ansible'' rv # er)
        \<longrightarrow> r = Return False
          \<and> last (Run ?co ''openshift-ansible'' rv # er) = Run ?co ''openshift-ansible'' False"
      using present(4,5) by (cases rv) simp_all
    ultimately show ?thesis
      using present(1,2)
      by (intro exI [where x = "Run ?co ''openshift-ansible'' rv # er"] conjI impI
          exI [where x = rv]) simp_all
  next
    case clone_failed
    then show ?thesis
      using dirs by (intro exI [where x = "[Run git_clone_cmd ''.'' False]"]) simp
  next
    case (cloned rv er)
    have "count_list (commands (Run git_clone_cmd ''.'' True # Run ?co ''openshift-ansible'' rv # er))
            (git_clone_cmd, ''.'') = 1"
      using cloned(3) dirs by simp
    moreover have "Run ?co ''openshift-ansible'' False
          \<in> set (Run git_clone_cmd ''.'' True # Run ?co ''openshift-ansible'' rv # er)
        \<longrightarrow> r = Return False
          \<and> last (Run git_clone_cmd ''.'' True # Run ?co ''openshift-ansible'' rv # er)
              = Run ?co ''openshift-ansible'' False"
      using cloned(4,5) dirs by (cases rv) simp_all
    ultimately show ?thesis
      using cloned(1,2)
      by (intro exI [where x = "Run git_clone_cmd ''.'' True # Run ?co ''openshift-ansible'' rv # er"]
          conjI impI exI [where x = rv]) simp_all
  qed
  then obtain es1 where es1: "es = es0 @ es1"
      "count_list (commands es1) (git_clone_cmd, ''.'')
          = (if os_path_exists sys w0 ''openshift-ansible'' then 0 else 1)"
      "Run git_clone_cmd ''.'' False \<notin> set es1 \<longrightarrow>
           (\<exists>rv. Run ?co ''openshift-ansible'' rv \<in> set es1)"
      "Run ?co ''openshift-ansible'' False \<in> set es1 \<longrightarrow>
           r = Return False \<and> last es1 = Run ?co ''openshift-ansible'' False"
    by blast
  have "count_list (commands (es1 @ es2)) (git_clone_cmd, ''.'') \<le> 1"
    using es1(2) second_count by simp
  with es1 second show ?thesis
    by (intro exI [where x = es1] conjI exI [where x = rv2])
qed

theorem checkout_stage_clones_once_witness:
  "clone (demo_sys [] [] demo_config []) demo_args demo_config demo_world =
     (Next (),
      [Run git_clone_cmd ''.'' True, Run ''git checkout tags/v1'' ''openshift-ansible'' True],
      ''openshift-ansible'' # demo_world)
   \<and> clone (demo_sys [] [] demo_config []) demo_args demo_config (''openshift-ansible'' # demo_world) =
     (Next (), [Run ''git checkout tags/v1'' ''openshift-ansible'' True],
      ''openshift-ansible'' # demo_world)
   \<and> count_list
        (commands ([Run git_clone_cmd ''.'' True, Run ''git checkout tags/v1'' ''openshift-ansible'' True]
                   @ [Run ''git checkout tags/v1'' ''openshift-ansible'' True]))
        (git_clone_cmd, ''.'') = 1"
proof -
  let ?S = "demo_sys [] [] demo_config []"
  let ?es0 = "[Banner (YStr ''demo''), Run ''./render.py demo'' ''.'' True,
       Run ''pip install --upgrade pip'' ''.'' True, Run ''pip install ansible==2.7'' ''.'' True]"
  let ?es1 = "[Run git_clone_cmd ''.'' True, Run ''git checkout tags/v1'' ''openshift-ansible'' True,
       Run ''ansible-playbook site.yaml  -i ../../openshift/inventories/inv/inventory''
         ''ansible/pre-os'' True,
       Run ''ansible-playbook ../openshift-ansible/playbooks/A -i inventories/inv/inventory''
         ''openshift'' True,
       Run ''ansible-playbook ../openshift-ansible/playbooks/B -i inventories/inv/inventory''
         ''openshift'' True,
       Run ''ansible-playbook ../openshift-ansible/playbooks/C -i inventories/inv/inventory''
         ''openshift'' True,
       Run ''ansible-playbook site.yaml'' ''ansible/post-os'' True]"
  have mode: "\<not> cluster demo_args"
    by (simp add: demo_args_def)
  have reach: "before_mode ?S demo_args ''demo'' demo_world
             = (Next (demo_config, YStr ''inv'', YStr ''t''), ?es0, demo_world)"
    by (simp add: stage_defs demo_defs bind_apply run_checked_apply)
  have tag: "getitem2 demo_config ''openshift'' ''ansible_tag'' = Inr (YStr ''v1'')"
    by (simp add: getitem2_def demo_config_def)
  have run1: "main ?S demo_args ''demo'' demo_world
             = (Return True, ?es0 @ ?es1, ''openshift-ansible'' # demo_world)"
    by (simp add: stage_defs demo_defs bind_apply run_checked_apply)
  have first: "clone ?S demo_args demo_config demo_world =
     (Next (),
      [Run git_clone_cmd ''.'' True, Run ''git checkout tags/v1'' ''openshift-ansible'' True],
      ''openshift-ansible'' # demo_world)"
    by (simp add: stage_defs demo_defs bind_apply run_checked_apply)
  have again: "clone ?S demo_args demo_config (''openshift-ansible'' # demo_world) =
     (Next (), [Run ''git checkout tags/v1'' ''openshift-ansible'' True],
      ''openshift-ansible'' # demo_world)"
    by (simp add: stage_defs demo_defs bind_apply run_checked_apply)
  have present: "os_path_exists ?S (''openshift-ansible'' # demo_world) ''openshift-ansible''"
    by (simp add: demo_sys_def)
  from checkout_stage_clones_once [OF mode reach tag run1 again present]
  obtain es1 where "?es0 @ ?es1 = ?es0 @ es1"
    and once: "count_list (commands (es1 @ [Run ''git checkout tags/v1'' ''openshift-ansible'' True]))
        (git_clone_cmd, ''.'') \<le> 1"
    by blast
  then have "es1 = ?es1"
    by simp
  have "count_list
        (commands ([Run git_clone_cmd ''.'' True, Run ''git checkout tags/v1'' ''openshift-ansible'' True]
                   @ [Run ''git checkout tags/v1'' ''openshift-ansible'' True]))
        (git_clone_cmd, ''.'') = 1"
    by (simp add: git_clone_cmd_def)
  with first again show ?thesis
    by (intro conjI)
qed

end
